theory Spec2Isabelle
  imports Complex_Main
begin

section \<open>CyberTune equalizer (equ.py): the audio engine and its control surface\<close>

text \<open>
  Samples are numpy float64 values in the source; here they are \<^typ>\<open>real\<close>, so the
  statements below are about the arithmetic the code writes down, without rounding, overflow
  or NaN. The one exception is the bound on the output samples, which depends on these: it
  is stated over the values of a second model that has the infinities and NaN. A
  two-dimensional numpy array of shape (frames, channels) is a list of frames,
  each frame the list of its channel samples; all frames of an array have one length.
\<close>

subsection \<open>Constants\<close>

definition BLOCK_SIZE :: nat where
  "BLOCK_SIZE = 2048"

definition BANDS :: "int list" where
  "BANDS = [32, 64, 125, 250, 500, 1000, 2000, 4000, 8000, 16000]"

definition PRESETS_table :: "(string \<times> int list) list" where
  "PRESETS_table =
     [(''Flat'', [0, 0, 0, 0, 0, 0, 0, 0, 0, 0]),
      (''Rock'', [5, 4, 3, 0, -1, -1, 0, 3, 4, 5]),
      (''Pop'', [-2, -1, 0, 2, 4, 4, 2, 0, -1, -2]),
      (''Jazz'', [4, 3, 1, 2, -2, -2, 0, 1, 3, 4]),
      (''Classical'', [5, 4, 3, 2, -1, -1, 0, 2, 4, 5]),
      (''Electronic'', [6, 5, 0, -2, 2, 0, 4, 5, 6, 6]),
      (''Vocal'', [-3, -2, -1, 1, 3, 4, 4, 3, 1, -1])]"

definition PRESETS :: "string \<rightharpoonup> int list" where
  "PRESETS = map_of PRESETS_table"

subsection \<open>Errors and arrays\<close>

datatype py_error = ValueError | IndexError

type_synonym frame = "real list"
type_synonym block = "frame list"

text \<open>\<^verbatim>\<open>a *= k\<close> on an array.\<close>

definition scale :: "block \<Rightarrow> real \<Rightarrow> block" where
  "scale a k = map (map (\<lambda>s. s * k)) a"

text \<open>\<^verbatim>\<open>acc += f * k\<close> on two arrays of one shape.\<close>

definition add_scaled :: "block \<Rightarrow> block \<Rightarrow> real \<Rightarrow> block" where
  "add_scaled acc f k = map2 (\<lambda>ra rf. map2 (\<lambda>a x. a + x * k) ra rf) acc f"

text \<open>\<^verbatim>\<open>outdata.fill(0)\<close>.\<close>

definition fill0 :: "block \<Rightarrow> block" where
  "fill0 outdata = map (map (\<lambda>_. 0)) outdata"

text \<open>
  \<^verbatim>\<open>np.clip(a, -1, 1, out)\<close>: each sample is \<open>minimum(maximum(s, -1), 1)\<close>, and the
  result is stored in \<open>out\<close>, to whose shape \<open>a\<close> must broadcast (an axis of \<open>a\<close> has the
  length of the same axis of \<open>out\<close>, or length 1); otherwise numpy raises ValueError and
  \<open>out\<close> is left as it was.
\<close>

definition clip1 :: "real \<Rightarrow> real" where
  "clip1 s = min (max s (-1)) 1"

definition clip_row :: "frame \<Rightarrow> frame \<Rightarrow> frame option" where
  "clip_row r orow =
     (if length r = length orow then Some (map clip1 r)
      else if length r = 1 then Some (map (\<lambda>_. clip1 (hd r)) orow)
      else None)"

definition np_clip_out :: "block \<Rightarrow> block \<Rightarrow> py_error + block" where
  "np_clip_out a out =
     (let rows = (if length a = length out then Some (zip a out)
                  else if length a = 1 then Some (map (\<lambda>orow. (hd a, orow)) out)
                  else None)
      in case rows of
           None \<Rightarrow> Inl ValueError
         | Some ps \<Rightarrow>
             (if list_all (\<lambda>(r, orow). clip_row r orow \<noteq> None) ps
              then Inr (map (\<lambda>(r, orow). the (clip_row r orow)) ps)
              else Inl ValueError))"

subsection \<open>scipy.signal.sosfilt\<close>

text \<open>
  A second-order section is the row \<open>(b0, b1, b2, a0, a1, a2)\<close>; a filter is a cascade of
  sections. \<open>sosfilt\<close> runs every sample through the sections in turn, each section in
  transposed direct form II with two delay values:
  \<^verbatim>\<open>
  x_new = b0 * x_cur + z0;  z0 = b1 * x_cur - a1 * x_new + z1;  z1 = b2 * x_cur - a2 * x_new
  \<close>
  It raises ValueError unless every \<open>a0\<close> is 1. With \<open>zi\<close> it starts from the given
  delay values and also returns the final ones; without \<open>zi\<close>, as the callback calls it,
  it starts from zeros and returns the filtered signal only.
\<close>

type_synonym sos_row = "real \<times> real \<times> real \<times> real \<times> real \<times> real"
type_synonym sos = "sos_row list"
type_synonym delays = "(real \<times> real) list"

fun section_step :: "sos_row \<Rightarrow> real \<times> real \<Rightarrow> real \<Rightarrow> real \<times> (real \<times> real)" where
  "section_step (b0, b1, b2, a0, a1, a2) (z0, z1) x_cur =
     (let x_new = b0 * x_cur + z0
      in (x_new, (b1 * x_cur - a1 * x_new + z1, b2 * x_cur - a2 * x_new)))"

fun cascade_step :: "(sos_row \<times> (real \<times> real)) list \<Rightarrow> real \<Rightarrow> real \<times> delays" where
  "cascade_step [] x_cur = (x_cur, [])"
| "cascade_step ((s, z) # rest) x_cur =
     (let (x_new, z') = section_step s z x_cur;
          (y, zs') = cascade_step rest x_new
      in (y, z' # zs'))"

fun sosfilt_zi :: "sos \<Rightarrow> delays \<Rightarrow> real list \<Rightarrow> real list \<times> delays" where
  "sosfilt_zi sos zi [] = ([], zi)"
| "sosfilt_zi sos zi (x # xs) =
     (let (y, zi') = cascade_step (zip sos zi) x;
          (ys, zf) = sosfilt_zi sos zi' xs
      in (y # ys, zf))"

definition zero_delays :: "sos \<Rightarrow> delays" where
  "zero_delays sos = replicate (length sos) (0, 0)"

definition sosfilt_1d :: "sos \<Rightarrow> real list \<Rightarrow> real list" where
  "sosfilt_1d sos x = fst (sosfilt_zi sos (zero_delays sos) x)"

text \<open>\<open>axis=0\<close>: the filter runs along the frames, on each channel by itself.\<close>

definition ncols :: "'a list list \<Rightarrow> nat" where
  "ncols a = (case a of [] \<Rightarrow> 0 | r # _ \<Rightarrow> length r)"

definition column :: "nat \<Rightarrow> 'a list list \<Rightarrow> 'a list" where
  "column j a = map (\<lambda>r. r ! j) a"

definition from_columns :: "nat \<Rightarrow> 'a list list \<Rightarrow> 'a list list" where
  "from_columns n cs = map (\<lambda>i. map (\<lambda>c. c ! i) cs) [0..<n]"

definition along_axis0 :: "('a list \<Rightarrow> 'a list) \<Rightarrow> 'a list list \<Rightarrow> 'a list list" where
  "along_axis0 f a = from_columns (length a) (map (\<lambda>j. f (column j a)) [0..<ncols a])"

definition sos_valid :: "sos \<Rightarrow> bool" where
  "sos_valid sos = list_all (\<lambda>(b0, b1, b2, a0, a1, a2). a0 = 1) sos"

definition sosfilt :: "sos \<Rightarrow> block \<Rightarrow> py_error + block" where
  "sosfilt sos x =
     (if sos_valid sos then Inr (along_axis0 (sosfilt_1d sos) x) else Inl ValueError)"

subsection \<open>The spectrum of a block\<close>

text \<open>
  \<^verbatim>\<open>np.mean(a, axis=1)\<close>, \<^verbatim>\<open>np.hanning(M)\<close> (which is
  \<open>0.5 + 0.5 * cos(pi * n / (M - 1))\<close> over \<open>n = 1 - M, 3 - M, ..., M - 1\<close>),
  \<^verbatim>\<open>np.fft.rfft\<close> (the first \<open>n div 2 + 1\<close> values of the discrete Fourier transform;
  ValueError on an empty input) and \<^verbatim>\<open>np.abs\<close>. A frame of a decoded file has at
  least one channel, so the mean never divides by zero.
\<close>

definition np_mean_axis1 :: "block \<Rightarrow> real list" where
  "np_mean_axis1 a = map (\<lambda>r. sum_list r / real (length r)) a"

definition np_hanning :: "nat \<Rightarrow> real list" where
  "np_hanning M =
     (if M < 1 then []
      else if M = 1 then [1]
      else map (\<lambda>k. 0.5 + 0.5 * cos (pi * (1 - real M + 2 * real k) / (real M - 1))) [0..<M])"

definition np_rfft :: "real list \<Rightarrow> py_error + complex list" where
  "np_rfft a =
     (let n = length a
      in if n = 0 then Inl ValueError
         else Inr (map (\<lambda>k. \<Sum>m = 0..<n. of_real (a ! m) * cis (- (2 * pi * real m * real k / real n)))
                     [0..<n div 2 + 1]))"

definition spectrum_of :: "block \<Rightarrow> py_error + real list" where
  "spectrum_of processed_chunk =
     (let avg_signal = np_mean_axis1 processed_chunk
      in case np_rfft (map2 (*) avg_signal (np_hanning (length avg_signal))) of
           Inl e \<Rightarrow> Inl e
         | Inr X \<Rightarrow> Inr (map cmod X))"

subsection \<open>AudioWorker\<close>

record AudioWorker =
  data :: "block option"
  fs :: int
  current_frame :: nat
  is_playing :: bool
  gains :: "real list"
  preamp :: real
  master_vol :: real
  bass_boost :: real
  treble_boost :: real
  is_bass_booster_active :: bool
  sos_filters :: "sos list"

definition AudioWorker_init :: AudioWorker where
  "AudioWorker_init =
     \<lparr>data = None, fs = 44100, current_frame = 0, is_playing = False,
      gains = replicate (length BANDS) 0, preamp = 1.0, master_vol = 0.8,
      bass_boost = 0.0, treble_boost = 0.0, is_bass_booster_active = False,
      sos_filters = []\<rparr>"

text \<open>The gain of band \<open>i\<close> in dB, as the loop body of \<open>callback\<close> accumulates it.\<close>

definition total_gain :: "AudioWorker \<Rightarrow> nat \<Rightarrow> real" where
  "total_gain w i =
     (let g = gains w ! i;
          g = (if i \<le> 2
               then (let g = g + bass_boost w
                     in if is_bass_booster_active w then g + 8.0 else g)
               else g);
          g = (if i \<ge> 7 then g + treble_boost w else g)
      in g)"

text \<open>\<^verbatim>\<open>linear_gain = 10**(total_gain/20) - 1\<close>.\<close>

definition linear_gain :: "real \<Rightarrow> real" where
  "linear_gain g = 10 powr (g / 20) - 1"

text \<open>
  The loop \<^verbatim>\<open>for i, sos in enumerate(self.sos_filters)\<close>: \<open>i\<close> is the index reached,
  the list holds the filters not yet visited, \<open>chunk\<close> is the pre-amplified chunk and
  \<open>processed_chunk\<close> the accumulator. \<open>self.gains[i]\<close> raises IndexError past the end.
\<close>

fun band_loop :: "AudioWorker \<Rightarrow> block \<Rightarrow> nat \<Rightarrow> sos list \<Rightarrow> block \<Rightarrow> py_error + block" where
  "band_loop w chunk i [] processed_chunk = Inr processed_chunk"
| "band_loop w chunk i (sos # rest) processed_chunk =
     (if i < length (gains w) then
        (if total_gain w i \<noteq> 0 then
           (case sosfilt sos chunk of
              Inl e \<Rightarrow> Inl e
            | Inr filtered \<Rightarrow>
                band_loop w chunk (Suc i) rest
                  (add_scaled processed_chunk filtered (linear_gain (total_gain w i))))
         else band_loop w chunk (Suc i) rest processed_chunk)
      else Inl IndexError)"

text \<open>
  What one call of \<open>callback\<close> leaves behind: the worker, the device's buffer \<open>outdata\<close>
  (written in place by the source), the array emitted on \<open>spectrum_ready\<close> if any, and the
  exception that left the call if any.
\<close>

record outcome =
  cb_worker :: AudioWorker
  cb_outdata :: block
  cb_emitted :: "real list option"
  cb_raised :: "py_error option"

definition callback :: "AudioWorker \<Rightarrow> block \<Rightarrow> nat \<Rightarrow> outcome" where
  "callback w outdata frames =
     (if \<not> is_playing w \<or> data w = None then
        \<lparr>cb_worker = w, cb_outdata = fill0 outdata, cb_emitted = None, cb_raised = None\<rparr>
      else
        (let d = the (data w);
             chunk_end = current_frame w + frames
         in if chunk_end > length d then
              \<lparr>cb_worker = w\<lparr>is_playing := False\<rparr>, cb_outdata = outdata,
               cb_emitted = None, cb_raised = None\<rparr>
            else
              (let chunk = scale (take frames (drop (current_frame w) d)) (preamp w)
               in case band_loop w chunk 0 (sos_filters w) chunk of
                    Inl e \<Rightarrow>
                      \<lparr>cb_worker = w, cb_outdata = outdata, cb_emitted = None,
                       cb_raised = Some e\<rparr>
                  | Inr summed \<Rightarrow>
                      (let processed_chunk = scale summed (master_vol w)
                       in case np_clip_out processed_chunk outdata of
                            Inl e \<Rightarrow>
                              \<lparr>cb_worker = w, cb_outdata = outdata, cb_emitted = None,
                               cb_raised = Some e\<rparr>
                          | Inr clipped \<Rightarrow>
                              (case spectrum_of processed_chunk of
                                 Inl e \<Rightarrow>
                                   \<lparr>cb_worker = w, cb_outdata = clipped, cb_emitted = None,
                                    cb_raised = Some e\<rparr>
                               | Inr fft_data \<Rightarrow>
                                   \<lparr>cb_worker = w\<lparr>current_frame := chunk_end\<rparr>,
                                    cb_outdata = clipped, cb_emitted = Some fft_data,
                                    cb_raised = None\<rparr>)))))"

subsection \<open>Building the filter bank and loading a file\<close>

text \<open>
  \<^verbatim>\<open>bessel(2, [low, high], btype='bandpass', fs=fs, output='sos')\<close> is scipy's; the
  numbers it returns are not needed here and stand as the parameter \<open>design\<close>. What matters
  is when it refuses: scipy normalises the cutoffs to \<open>Wn = 2 * W / fs\<close> and raises
  ValueError unless \<open>0 < Wn[0] < Wn[1] < 1\<close>. At \<open>fs = 0\<close> the float division
  gives infinities or NaN, which fail one of these comparisons whatever the cutoffs are.
\<close>

type_synonym design = "real \<Rightarrow> real \<Rightarrow> int \<Rightarrow> sos"

definition bessel :: "design \<Rightarrow> real \<Rightarrow> real \<Rightarrow> int \<Rightarrow> py_error + sos" where
  "bessel design low high rate =
     (if rate = 0 then Inl ValueError
      else
        (let wn0 = 2 * low / real_of_int rate;
             wn1 = 2 * high / real_of_int rate
         in if wn0 \<le> 0 \<or> wn1 \<le> 0 then Inl ValueError
            else if \<not> wn0 < wn1 then Inl ValueError
            else if wn0 \<ge> 1 \<or> wn1 \<ge> 1 then Inl ValueError
            else Inr (design low high rate)))"

definition band_low :: "int \<Rightarrow> real" where
  "band_low freq = real_of_int freq * 0.707"

definition band_high :: "int \<Rightarrow> int \<Rightarrow> real" where
  "band_high freq rate = min (real_of_int freq * 1.414) (real_of_int rate / 2 - 1)"

text \<open>
  The loop of \<open>_update_filters\<close> over the bands still to build; an exception of \<open>bessel\<close>
  leaves the loop with the filters appended so far.
\<close>

fun filters_loop :: "design \<Rightarrow> int \<Rightarrow> int list \<Rightarrow> sos list \<Rightarrow> sos list \<times> py_error option" where
  "filters_loop design rate [] built = (built, None)"
| "filters_loop design rate (freq # rest) built =
     (case bessel design (band_low freq) (band_high freq rate) rate of
        Inl e \<Rightarrow> (built, Some e)
      | Inr sos \<Rightarrow> filters_loop design rate rest (built @ [sos]))"

definition update_filters :: "design \<Rightarrow> AudioWorker \<Rightarrow> AudioWorker \<times> py_error option" where
  "update_filters design w =
     (let (built, raised) = filters_loop design (fs w) BANDS []
      in (w\<lparr>sos_filters := built\<rparr>, raised))"

text \<open>
  \<open>load_file\<close>, given what \<^verbatim>\<open>sf.read(path, always_2d=True)\<close> returned: the samples
  and the sample rate.
\<close>

definition load_file :: "design \<Rightarrow> AudioWorker \<Rightarrow> block \<times> int \<Rightarrow> AudioWorker \<times> py_error option" where
  "load_file design w decoded =
     (let w = w\<lparr>data := Some (fst decoded), fs := snd decoded\<rparr>;
          w = w\<lparr>current_frame := 0\<rparr>
      in update_filters design w)"

subsection \<open>Visualizer\<close>





subsection \<open>EqualizerApp: the control surface\<close>

text \<open>Of the window, the worker and the values of the ten band sliders (range -15 to 15).\<close>

record EqualizerApp =
  worker :: AudioWorker
  band_sliders :: "int list"

definition update_preamp :: "EqualizerApp \<Rightarrow> int \<Rightarrow> EqualizerApp" where
  "update_preamp a val = a\<lparr>worker := (worker a)\<lparr>preamp := real_of_int val / 50.0\<rparr>\<rparr>"

definition update_master :: "EqualizerApp \<Rightarrow> int \<Rightarrow> EqualizerApp" where
  "update_master a val = a\<lparr>worker := (worker a)\<lparr>master_vol := real_of_int val / 100.0\<rparr>\<rparr>"

text \<open>
  \<^verbatim>\<open>self.worker.gains[index] = val\<close>, the assignment that both \<open>update_band\<close> and the
  loop of \<open>apply_preset\<close> make; IndexError past the end of the array.
\<close>

definition set_gain :: "EqualizerApp \<Rightarrow> nat \<Rightarrow> int \<Rightarrow> EqualizerApp \<times> py_error option" where
  "set_gain a index val =
     (if index < length (gains (worker a))
      then (a\<lparr>worker := (worker a)\<lparr>gains := (gains (worker a))[index := real_of_int val]\<rparr>\<rparr>, None)
      else (a, Some IndexError))"

definition update_band :: "EqualizerApp \<Rightarrow> nat \<Rightarrow> int \<Rightarrow> EqualizerApp \<times> py_error option" where
  "update_band a index val = set_gain a index val"

definition toggle_bass_booster :: "EqualizerApp \<Rightarrow> int \<Rightarrow> EqualizerApp" where
  "toggle_bass_booster a state = a\<lparr>worker := (worker a)\<lparr>is_bass_booster_active := (state = 2)\<rparr>\<rparr>"

definition toggle_play :: "EqualizerApp \<Rightarrow> EqualizerApp" where
  "toggle_play a =
     (if data (worker a) = None then a
      else a\<lparr>worker := (worker a)\<lparr>is_playing := \<not> is_playing (worker a)\<rparr>\<rparr>)"

text \<open>
  \<^verbatim>\<open>self.band_sliders[i].setValue(gain)\<close>: Qt bounds the value to the slider's range and,
  when the value changes, emits \<open>valueChanged\<close>, which is connected to \<open>update_band\<close> of
  that index.
\<close>

definition slider_setValue :: "EqualizerApp \<Rightarrow> nat \<Rightarrow> int \<Rightarrow> EqualizerApp \<times> py_error option" where
  "slider_setValue a i v =
     (if i < length (band_sliders a) then
        (let bounded = max (-15) (min 15 v)
         in if bounded = band_sliders a ! i then (a, None)
            else update_band (a\<lparr>band_sliders := (band_sliders a)[i := bounded]\<rparr>) i bounded)
      else (a, Some IndexError))"

text \<open>The loop of \<open>apply_preset\<close> over \<^verbatim>\<open>enumerate(preset_gains)\<close>.\<close>

fun preset_loop :: "EqualizerApp \<Rightarrow> nat \<Rightarrow> int list \<Rightarrow> EqualizerApp \<times> py_error option" where
  "preset_loop a i [] = (a, None)"
| "preset_loop a i (gain # rest) =
     (case slider_setValue a i gain of
        (a', Some e) \<Rightarrow> (a', Some e)
      | (a', None) \<Rightarrow>
          (case set_gain a' i gain of
             (a'', Some e) \<Rightarrow> (a'', Some e)
           | (a'', None) \<Rightarrow> preset_loop a'' (Suc i) rest))"

definition apply_preset :: "EqualizerApp \<Rightarrow> string \<Rightarrow> EqualizerApp \<times> py_error option" where
  "apply_preset a name =
     (case PRESETS name of
        None \<Rightarrow> (a, None)
      | Some preset_gains \<Rightarrow> preset_loop a 0 preset_gains)"

text \<open>
  The two boost sliders (\<^verbatim>\<open>lambda v: setattr(self.worker, 'bass_boost', v)\<close> and its treble
  twin), \<open>closeEvent\<close> as far as the worker goes, and \<open>load_audio\<close>, given the file
  the dialog returned already decoded, or nothing when the dialog was cancelled or the file
  could not be read (\<open>sf.read\<close> raises before the worker is touched).
\<close>

definition set_bass_boost :: "EqualizerApp \<Rightarrow> int \<Rightarrow> EqualizerApp" where
  "set_bass_boost a v = a\<lparr>worker := (worker a)\<lparr>bass_boost := real_of_int v\<rparr>\<rparr>"

definition set_treble_boost :: "EqualizerApp \<Rightarrow> int \<Rightarrow> EqualizerApp" where
  "set_treble_boost a v = a\<lparr>worker := (worker a)\<lparr>treble_boost := real_of_int v\<rparr>\<rparr>"

definition closeEvent :: "EqualizerApp \<Rightarrow> EqualizerApp" where
  "closeEvent a = a\<lparr>worker := (worker a)\<lparr>is_playing := False\<rparr>\<rparr>"

definition load_audio :: "design \<Rightarrow> EqualizerApp \<Rightarrow> (block \<times> int) option \<Rightarrow> EqualizerApp" where
  "load_audio design a chosen =
     (case chosen of
        None \<Rightarrow> a
      | Some decoded \<Rightarrow> a\<lparr>worker := fst (load_file design (worker a) decoded)\<rparr>)"

text \<open>
  Everything that can happen to the application once the window is up: the device calls
  \<open>callback\<close>, and the user's actions call the slots connected in \<open>init_ui\<close>.
\<close>

datatype action =
    Callback block nat
  | LoadAudio "(block \<times> int) option"
  | TogglePlay
  | ApplyPreset string
  | ToggleBassBooster int
  | UpdatePreamp int
  | UpdateMaster int
  | UpdateBand nat int
  | BassSlider int
  | TrebleSlider int
  | CloseEvent

fun perform :: "design \<Rightarrow> EqualizerApp \<Rightarrow> action \<Rightarrow> EqualizerApp" where
  "perform design a (Callback outdata frames) =
     a\<lparr>worker := cb_worker (callback (worker a) outdata frames)\<rparr>"
| "perform design a (LoadAudio chosen) = load_audio design a chosen"
| "perform design a TogglePlay = toggle_play a"
| "perform design a (ApplyPreset name) = fst (apply_preset a name)"
| "perform design a (ToggleBassBooster state) = toggle_bass_booster a state"
| "perform design a (UpdatePreamp val) = update_preamp a val"
| "perform design a (UpdateMaster val) = update_master a val"
| "perform design a (UpdateBand index val) = fst (update_band a index val)"
| "perform design a (BassSlider v) = set_bass_boost a v"
| "perform design a (TrebleSlider v) = set_treble_boost a v"
| "perform design a CloseEvent = closeEvent a"

subsection \<open>The output path with IEEE special values\<close>

text \<open>
  Whether a sample of the output buffer can leave the range of \<open>np.clip\<close> is a question
  about float64 values that are not numbers. For it, the path of \<open>callback\<close> from the
  buffer to \<open>outdata\<close> is written once more over values that are finite, plus or minus
  infinity, or NaN. A finite result of an operation stands for the double nearest to it
  (rounding is left out); a result of magnitude \<open>2^1024 - 2^970\<close> or more overflows to an
  infinity, as IEEE 754 rounds it; infinity times zero and infinity minus infinity are NaN,
  and NaN goes through every operation. Signed zeros are not told apart.
\<close>

datatype f64 = Fin real | PosInf | NegInf | NaN

definition overflow_bound :: real where
  "overflow_bound = 2 ^ 1024 - 2 ^ 970"

definition f64_of :: "real \<Rightarrow> f64" where
  "f64_of x =
     (if overflow_bound \<le> x then PosInf
      else if x \<le> - overflow_bound then NegInf
      else Fin x)"

fun fneg :: "f64 \<Rightarrow> f64" where
  "fneg (Fin a) = Fin (- a)"
| "fneg PosInf = NegInf"
| "fneg NegInf = PosInf"
| "fneg NaN = NaN"

fun fmul :: "f64 \<Rightarrow> f64 \<Rightarrow> f64" where
  "fmul NaN y = NaN"
| "fmul x NaN = NaN"
| "fmul (Fin a) (Fin b) = f64_of (a * b)"
| "fmul (Fin a) PosInf = (if a = 0 then NaN else if 0 < a then PosInf else NegInf)"
| "fmul (Fin a) NegInf = (if a = 0 then NaN else if 0 < a then NegInf else PosInf)"
| "fmul PosInf (Fin b) = (if b = 0 then NaN else if 0 < b then PosInf else NegInf)"
| "fmul NegInf (Fin b) = (if b = 0 then NaN else if 0 < b then NegInf else PosInf)"
| "fmul PosInf PosInf = PosInf"
| "fmul PosInf NegInf = NegInf"
| "fmul NegInf PosInf = NegInf"
| "fmul NegInf NegInf = PosInf"

fun fadd :: "f64 \<Rightarrow> f64 \<Rightarrow> f64" where
  "fadd NaN y = NaN"
| "fadd x NaN = NaN"
| "fadd (Fin a) (Fin b) = f64_of (a + b)"
| "fadd PosInf NegInf = NaN"
| "fadd NegInf PosInf = NaN"
| "fadd PosInf y = PosInf"
| "fadd x PosInf = PosInf"
| "fadd NegInf y = NegInf"
| "fadd x NegInf = NegInf"

definition fsub :: "f64 \<Rightarrow> f64 \<Rightarrow> f64" where
  "fsub x y = fadd x (fneg y)"

text \<open>
  \<^verbatim>\<open>total_gain/20\<close>, \<^verbatim>\<open>10**x\<close> (numpy's power: an overflow gives infinity, no exception)
  and \<^verbatim>\<open>total_gain != 0\<close>, which is true of NaN.
\<close>

fun over20 :: "f64 \<Rightarrow> f64" where
  "over20 (Fin g) = Fin (g / 20)"
| "over20 x = x"

fun pow10 :: "f64 \<Rightarrow> f64" where
  "pow10 (Fin x) = f64_of (10 powr x)"
| "pow10 PosInf = PosInf"
| "pow10 NegInf = Fin 0"
| "pow10 NaN = NaN"

fun nonzero :: "f64 \<Rightarrow> bool" where
  "nonzero (Fin a) = (a \<noteq> 0)"
| "nonzero x = True"

text \<open>
  \<^verbatim>\<open>np.clip(s, -1, 1)\<close> on one value: the infinities are clipped, NaN is passed on
  unchanged.
\<close>

fun fclip :: "f64 \<Rightarrow> f64" where
  "fclip (Fin x) = Fin (clip1 x)"
| "fclip PosInf = Fin 1"
| "fclip NegInf = Fin (- 1)"
| "fclip NaN = NaN"

type_synonym block64 = "f64 list list"

definition scale_f :: "block64 \<Rightarrow> f64 \<Rightarrow> block64" where
  "scale_f a k = map (map (\<lambda>s. fmul s k)) a"

definition add_scaled_f :: "block64 \<Rightarrow> block64 \<Rightarrow> f64 \<Rightarrow> block64" where
  "add_scaled_f acc f k = map2 (\<lambda>ra rf. map2 (\<lambda>a x. fadd a (fmul x k)) ra rf) acc f"

definition fill0_f :: "block64 \<Rightarrow> block64" where
  "fill0_f outdata = map (map (\<lambda>_. Fin 0)) outdata"

definition clip_row_f :: "f64 list \<Rightarrow> f64 list \<Rightarrow> f64 list option" where
  "clip_row_f r orow =
     (if length r = length orow then Some (map fclip r)
      else if length r = 1 then Some (map (\<lambda>_. fclip (hd r)) orow)
      else None)"

definition np_clip_out_f :: "block64 \<Rightarrow> block64 \<Rightarrow> py_error + block64" where
  "np_clip_out_f a out =
     (let rows = (if length a = length out then Some (zip a out)
                  else if length a = 1 then Some (map (\<lambda>orow. (hd a, orow)) out)
                  else None)
      in case rows of
           None \<Rightarrow> Inl ValueError
         | Some ps \<Rightarrow>
             (if list_all (\<lambda>(r, orow). clip_row_f r orow \<noteq> None) ps
              then Inr (map (\<lambda>(r, orow). the (clip_row_f r orow)) ps)
              else Inl ValueError))"

type_synonym sos_row64 = "f64 \<times> f64 \<times> f64 \<times> f64 \<times> f64 \<times> f64"

type_synonym sos64 = "sos_row64 list"

fun section_step_f :: "sos_row64 \<Rightarrow> f64 \<times> f64 \<Rightarrow> f64 \<Rightarrow> f64 \<times> (f64 \<times> f64)" where
  "section_step_f (b0, b1, b2, a0, a1, a2) (z0, z1) x_cur =
     (let x_new = fadd (fmul b0 x_cur) z0
      in (x_new, (fadd (fsub (fmul b1 x_cur) (fmul a1 x_new)) z1,
                  fsub (fmul b2 x_cur) (fmul a2 x_new))))"

fun cascade_step_f :: "(sos_row64 \<times> (f64 \<times> f64)) list \<Rightarrow> f64 \<Rightarrow> f64 \<times> (f64 \<times> f64) list" where
  "cascade_step_f [] x_cur = (x_cur, [])"
| "cascade_step_f ((s, z) # rest) x_cur =
     (let (x_new, z') = section_step_f s z x_cur;
          (y, zs') = cascade_step_f rest x_new
      in (y, z' # zs'))"

fun sosfilt_zi_f :: "sos64 \<Rightarrow> (f64 \<times> f64) list \<Rightarrow> f64 list \<Rightarrow> f64 list \<times> (f64 \<times> f64) list" where
  "sosfilt_zi_f sos zi [] = ([], zi)"
| "sosfilt_zi_f sos zi (x # xs) =
     (let (y, zi') = cascade_step_f (zip sos zi) x;
          (ys, zf) = sosfilt_zi_f sos zi' xs
      in (y # ys, zf))"

definition sosfilt_f :: "sos64 \<Rightarrow> block64 \<Rightarrow> py_error + block64" where
  "sosfilt_f sos x =
     (if list_all (\<lambda>(b0, b1, b2, a0, a1, a2). a0 = Fin 1) sos
      then Inr (along_axis0
                  (\<lambda>col. fst (sosfilt_zi_f sos (replicate (length sos) (Fin 0, Fin 0)) col)) x)
      else Inl ValueError)"

text \<open>
  The worker as far as \<open>callback\<close> reads and writes it, the band loop, the block before
  clipping (\<open>processed_chunk\<close> after the master volume) and the call. Of the spectrum only
  its exception is kept: \<open>rfft\<close> raises on an empty block, after \<open>outdata\<close> was written.
\<close>

record AudioWorker64 =
  data64 :: "block64 option"
  current_frame64 :: nat
  is_playing64 :: bool
  gains64 :: "f64 list"
  preamp64 :: f64
  master_vol64 :: f64
  bass_boost64 :: f64
  treble_boost64 :: f64
  is_bass_booster_active64 :: bool
  sos_filters64 :: "sos64 list"

definition total_gain_f :: "AudioWorker64 \<Rightarrow> nat \<Rightarrow> f64" where
  "total_gain_f w i =
     (let g = gains64 w ! i;
          g = (if i \<le> 2
               then (let g = fadd g (bass_boost64 w)
                     in if is_bass_booster_active64 w then fadd g (Fin 8.0) else g)
               else g);
          g = (if i \<ge> 7 then fadd g (treble_boost64 w) else g)
      in g)"

definition linear_gain_f :: "f64 \<Rightarrow> f64" where
  "linear_gain_f g = fsub (pow10 (over20 g)) (Fin 1)"

fun band_loop_f :: "AudioWorker64 \<Rightarrow> block64 \<Rightarrow> nat \<Rightarrow> sos64 list \<Rightarrow> block64 \<Rightarrow> py_error + block64" where
  "band_loop_f w chunk i [] processed_chunk = Inr processed_chunk"
| "band_loop_f w chunk i (sos # rest) processed_chunk =
     (if i < length (gains64 w) then
        (if nonzero (total_gain_f w i) then
           (case sosfilt_f sos chunk of
              Inl e \<Rightarrow> Inl e
            | Inr filtered \<Rightarrow>
                band_loop_f w chunk (Suc i) rest
                  (add_scaled_f processed_chunk filtered (linear_gain_f (total_gain_f w i))))
         else band_loop_f w chunk (Suc i) rest processed_chunk)
      else Inl IndexError)"

definition processed64 :: "AudioWorker64 \<Rightarrow> nat \<Rightarrow> py_error + block64" where
  "processed64 w frames =
     (let chunk = scale_f (take frames (drop (current_frame64 w) (the (data64 w)))) (preamp64 w)
      in case band_loop_f w chunk 0 (sos_filters64 w) chunk of
           Inl e \<Rightarrow> Inl e
         | Inr summed \<Rightarrow> Inr (scale_f summed (master_vol64 w)))"

record outcome64 =
  cb_worker64 :: AudioWorker64
  cb_outdata64 :: block64
  cb_raised64 :: "py_error option"

definition callback64 :: "AudioWorker64 \<Rightarrow> block64 \<Rightarrow> nat \<Rightarrow> outcome64" where
  "callback64 w outdata frames =
     (if \<not> is_playing64 w \<or> data64 w = None then
        \<lparr>cb_worker64 = w, cb_outdata64 = fill0_f outdata, cb_raised64 = None\<rparr>
      else
        (let d = the (data64 w);
             chunk_end = current_frame64 w + frames
         in if chunk_end > length d then
              \<lparr>cb_worker64 = w\<lparr>is_playing64 := False\<rparr>, cb_outdata64 = outdata, cb_raised64 = None\<rparr>
            else
              (case processed64 w frames of
                 Inl e \<Rightarrow> \<lparr>cb_worker64 = w, cb_outdata64 = outdata, cb_raised64 = Some e\<rparr>
               | Inr processed_chunk \<Rightarrow>
                   (case np_clip_out_f processed_chunk outdata of
                      Inl e \<Rightarrow> \<lparr>cb_worker64 = w, cb_outdata64 = outdata, cb_raised64 = Some e\<rparr>
                    | Inr clipped \<Rightarrow>
                        (if processed_chunk = [] then
                           \<lparr>cb_worker64 = w, cb_outdata64 = clipped, cb_raised64 = Some ValueError\<rparr>
                         else
                           \<lparr>cb_worker64 = w\<lparr>current_frame64 := chunk_end\<rparr>,
                            cb_outdata64 = clipped, cb_raised64 = None\<rparr>)))))"


subsection \<open>The band loop as the specification words it\<close>

text \<open>
  The gain of band \<open>i\<close> and the step of one band written after the specification's
  sentences (section 4.3, steps 5 and 6), to be compared with \<open>total_gain\<close> and
  \<open>band_loop\<close> above.
\<close>

definition total_gain_spec :: "AudioWorker \<Rightarrow> nat \<Rightarrow> real" where
  "total_gain_spec w i =
     gains w ! i + (if i \<le> 2 then bass_boost w else 0)
       + (if i \<le> 2 \<and> is_bass_booster_active w then 8.0 else 0)
       + (if i \<ge> 7 then treble_boost w else 0)"

definition band_step_spec :: "AudioWorker \<Rightarrow> block \<Rightarrow> block \<Rightarrow> nat \<Rightarrow> block" where
  "band_step_spec w chunk acc i =
     (if total_gain_spec w i \<noteq> 0
      then add_scaled acc (along_axis0 (sosfilt_1d (sos_filters w ! i)) chunk)
             (10 powr (total_gain_spec w i / 20) - 1)
      else acc)"

subsection \<open>Notions used in the statements\<close>

text \<open>
  \<open>band_ok rate freq\<close>: the low cutoff of the band lies below its high cutoff at this
  sample rate. \<open>band_sos design rate freq\<close>: the filter the design returns for the band.
\<close>

definition band_ok :: "int \<Rightarrow> int \<Rightarrow> bool" where
  "band_ok rate freq = (band_low freq < band_high freq rate)"

definition band_sos :: "design \<Rightarrow> int \<Rightarrow> int \<Rightarrow> sos" where
  "band_sos design rate freq = design (band_low freq) (band_high freq rate) rate"

text \<open>
  What band \<open>i\<close> adds to one sample of the accumulator when its filtered sample is \<open>x\<close>
  (the body of the loop in \<open>callback\<close>: nothing when the gain is zero).
\<close>

definition band_contribution :: "AudioWorker \<Rightarrow> nat \<Rightarrow> real \<Rightarrow> real" where
  "band_contribution w i x = (if total_gain w i \<noteq> 0 then x * linear_gain (total_gain w i) else 0)"

text \<open>
  The step of one band with the delay values every call of \<open>sosfilt\<close> starts from written
  out: zeros, for every section.
\<close>

definition band_step_zero :: "AudioWorker \<Rightarrow> block \<Rightarrow> block \<Rightarrow> nat \<Rightarrow> block" where
  "band_step_zero w chunk acc i =
     (if total_gain w i \<noteq> 0
      then add_scaled acc
             (along_axis0
                (\<lambda>x. fst (sosfilt_zi (sos_filters w ! i)
                             (replicate (length (sos_filters w ! i)) (0, 0)) x))
                chunk)
             (linear_gain (total_gain w i))
      else acc)"

subsection \<open>States used as examples\<close>

text \<open>
  \<open>sample_design\<close> stands for scipy's numbers in the examples: two sections for every
  band. \<open>EqualizerApp_init\<close> is the window after \<open>init_ui\<close>: a fresh worker and ten band
  sliders at 0. The workers below are playing a short stereo buffer with various settings;
  \<open>tail_worker\<close> has played the first block of two frames of its three.
\<close>

definition sample_design :: design where
  "sample_design low high rate = [(1, 0, -1, 1, 0, 0), (1, 0, 0, 1, 0, 0)]"

definition EqualizerApp_init :: EqualizerApp where
  "EqualizerApp_init = \<lparr>worker = AudioWorker_init, band_sliders = replicate (length BANDS) 0\<rparr>"

definition flat_worker :: AudioWorker where
  "flat_worker =
     \<lparr>data = Some [[1/2, -2], [3, 1/4]], fs = 44100, current_frame = 0, is_playing = True,
      gains = replicate 10 0, preamp = 2, master_vol = 1/2,
      bass_boost = 0, treble_boost = 0, is_bass_booster_active = False,
      sos_filters = replicate 10 [(1, 0, -1, 1, 0, 0)]\<rparr>"

definition mono_worker :: AudioWorker where
  "mono_worker =
     \<lparr>data = Some [[1/2], [-2]], fs = 44100, current_frame = 0, is_playing = True,
      gains = replicate 10 0, preamp = 2, master_vol = 1/2,
      bass_boost = 0, treble_boost = 0, is_bass_booster_active = False,
      sos_filters = replicate 10 [(1, 0, -1, 1, 0, 0)]\<rparr>"

definition bass_worker :: AudioWorker where
  "bass_worker =
     \<lparr>data = Some [[1/2, -2], [3, 1/4]], fs = 44100, current_frame = 0, is_playing = True,
      gains = [5, -15, -15, 0, 0, 0, 0, 0, 0, 0], preamp = 1, master_vol = 1/20,
      bass_boost = 15, treble_boost = 0, is_bass_booster_active = False,
      sos_filters = replicate 10 [(1, 0, 0, 1, 0, 0)]\<rparr>"

definition cut_worker :: AudioWorker where
  "cut_worker = AudioWorker_init\<lparr>gains := [0, 0, 0, -15, 0, 0, 0, 0, 0, 0]\<rparr>"

definition tail_worker :: AudioWorker where
  "tail_worker =
     \<lparr>data = Some [[1/2, -1/2], [1/4, 3/4], [1/8, 1/8]], fs = 44100, current_frame = 2,
      is_playing = True, gains = replicate 10 0, preamp = 1, master_vol = 4/5,
      bass_boost = 0, treble_boost = 0, is_bass_booster_active = False,
      sos_filters = replicate 10 [(1, 0, -1, 1, 0, 0)]\<rparr>"

definition echo_worker :: AudioWorker where
  "echo_worker =
     \<lparr>data = Some [[1/10, 1/10], [0, 0]], fs = 44100, current_frame = 0, is_playing = True,
      gains = [20, 0, 0, 0, 0, 0, 0, 0, 0, 0], preamp = 1, master_vol = 1/2,
      bass_boost = 0, treble_boost = 0, is_bass_booster_active = False,
      sos_filters = replicate 10 [(1, 1, 0, 1, 0, 0)]\<rparr>"





text \<open>
  Two workers over the values with infinities and NaN: one with band 0 at +20 dB, and one
  whose samples are \<open>2^1023\<close> (a double) with the pre-amp at 2.0 and the master volume at
  0.0, the two ends of their sliders.
\<close>

definition loud_worker64 :: AudioWorker64 where
  "loud_worker64 =
     \<lparr>data64 = Some [[Fin (1/2), Fin (- 2)]], current_frame64 = 0, is_playing64 = True,
      gains64 = [Fin 20, Fin 0, Fin 0, Fin 0, Fin 0, Fin 0, Fin 0, Fin 0, Fin 0, Fin 0],
      preamp64 = Fin 2, master_vol64 = Fin 1,
      bass_boost64 = Fin 0, treble_boost64 = Fin 0, is_bass_booster_active64 = False,
      sos_filters64 = replicate 10 [(Fin 1, Fin 0, Fin 0, Fin 1, Fin 0, Fin 0)]\<rparr>"

definition overflow_worker64 :: AudioWorker64 where
  "overflow_worker64 =
     \<lparr>data64 = Some [[Fin (2 ^ 1023), Fin (2 ^ 1023)]], current_frame64 = 0, is_playing64 = True,
      gains64 = replicate 10 (Fin 0),
      preamp64 = Fin 2, master_vol64 = Fin 0,
      bass_boost64 = Fin 0, treble_boost64 = Fin 0, is_bass_booster_active64 = False,
      sos_filters64 = replicate 10 [(Fin 1, Fin 0, Fin 0, Fin 1, Fin 0, Fin 0)]\<rparr>"

section \<open>Properties\<close>

subsection \<open>Auxiliary facts\<close>

lemma upt2: "[0..<2] = [0, 1]"
  by (simp add: upt_rec)

lemma clip_row_same: "length r = length orow \<Longrightarrow> clip_row r orow = Some (map clip1 r)"
  by (simp add: clip_row_def)

lemma np_clip_out_same_shape:
  assumes "list_all2 (\<lambda>r orow. length r = length orow) a out"
  shows "np_clip_out a out = Inr (map (map clip1) a)"
proof -
  have len: "length a = length out" using assms by (rule list_all2_lengthD)
  have rows: "\<forall>(r, orow) \<in> set (zip a out). clip_row r orow = Some (map clip1 r)"
    using assms by (auto simp: list_all2_iff clip_row_same)
  have "map (\<lambda>(r, orow). the (clip_row r orow)) (zip a out) = map (\<lambda>(r, orow). map clip1 r) (zip a out)"
    using rows by (intro map_cong) auto
  also have "\<dots> = map (map clip1) (map fst (zip a out))" by (simp add: case_prod_beta comp_def)
  also have "\<dots> = map (map clip1) a" using len by simp
  finally have m: "map (\<lambda>(r, orow). the (clip_row r orow)) (zip a out) = map (map clip1) a" .
  have "list_all (\<lambda>(r, orow). clip_row r orow \<noteq> None) (zip a out)"
    using rows by (auto simp: list_all_iff)
  with len m show ?thesis by (simp add: np_clip_out_def)
qed

lemma replicate10: "replicate 10 x = [x, x, x, x, x, x, x, x, x, x]"
  by (simp add: numeral_eq_Suc)

lemma clip1_bound: "\<bar>clip1 s\<bar> \<le> 1"
  by (auto simp: clip1_def min_def max_def abs_le_iff)

lemma length_np_hanning: "length (np_hanning M) = M"
  by (simp add: np_hanning_def)

lemma spectrum_of_Inr:
  "a \<noteq> [] \<Longrightarrow>
   spectrum_of a =
     Inr (map cmod (map (\<lambda>k. \<Sum>m = 0..<length a.
            of_real (map2 (*) (np_mean_axis1 a) (np_hanning (length a)) ! m)
            * cis (- (2 * pi * real m * real k / real (length a))))
          [0..<length a div 2 + 1]))"
  by (simp add: spectrum_of_def np_rfft_def Let_def np_mean_axis1_def length_np_hanning)

subsection \<open>The identity path\<close>

lemma total_gain_flat:
  assumes "gains w = replicate 10 0" "bass_boost w = 0" "treble_boost w = 0"
    "\<not> is_bass_booster_active w" "i < 10"
  shows "total_gain w i = 0"
  using assms by (simp add: total_gain_def)

lemma band_loop_flat:
  assumes "gains w = replicate 10 0" "bass_boost w = 0" "treble_boost w = 0"
    "\<not> is_bass_booster_active w"
  shows "i + length bank \<le> 10 \<Longrightarrow> band_loop w chunk i bank acc = Inr acc"
proof (induction bank arbitrary: i)
  case Nil
  show ?case by simp
next
  case (Cons sos rest)
  then have i: "i < 10" and rest: "Suc i + length rest \<le> 10" by simp_all
  have "total_gain w i = 0" using assms i by (rule total_gain_flat)
  with assms(1) i Cons.IH [OF rest] show ?case by simp
qed

lemma np_clip_out_mono:
  assumes "length a = length out" and "\<forall>r \<in> set a. length r = 1"
  shows "np_clip_out a out = Inr (map2 (\<lambda>r orow. map (\<lambda>_. clip1 (hd r)) orow) a out)"
proof -
  have rows: "clip_row r orow = Some (map (\<lambda>_. clip1 (hd r)) orow)" if "(r, orow) \<in> set (zip a out)" for r orow
  proof -
    from that have "r \<in> set a" by (rule set_zip_leftD)
    with assms(2) have l: "length r = 1" by simp
    show ?thesis
    proof (cases "length orow = 1")
      case True
      with l have "length r = length orow" by simp
      moreover from l True obtain x y where "r = [x]" "orow = [y]"
        by (metis One_nat_def length_0_conv length_Suc_conv)
      ultimately show ?thesis by (simp add: clip_row_def)
    next
      case False
      with l show ?thesis by (simp add: clip_row_def)
    qed
  qed
  have m: "map (\<lambda>(r, orow). the (clip_row r orow)) (zip a out)
      = map (\<lambda>(r, orow). map (\<lambda>_. clip1 (hd r)) orow) (zip a out)"
    using rows by (intro map_cong) auto
  have "list_all (\<lambda>(r, orow). clip_row r orow \<noteq> None) (zip a out)"
    using rows by (auto simp: list_all_iff)
  with assms(1) m show ?thesis by (simp add: np_clip_out_def)
qed

text \<open>
  C1. While playing inside a loaded buffer, with the ten band gains, the bass boost and the
  treble boost all zero and the booster off, no band is filtered: the loop returns the
  pre-amplified chunk as it received it, whatever filters the bank holds. The output buffer
  then holds what \<open>np.clip(chunk * preamp * master_vol, -1, 1, outdata)\<close> stores in it, for
  every shape of the buffer: whenever the call raises nothing this is the result of that
  clip; for a buffer of the chunk's shape it is \<open>clip(chunk * preamp * master_vol)\<close> sample
  for sample, and for a mono chunk it is that value in every channel of the buffer. A chunk
  that does not broadcast to the buffer makes \<open>np.clip\<close> raise and leaves the buffer as
  it was.
\<close>

theorem identity_path:
  assumes "is_playing w" and "data w = Some d" and "current_frame w + frames \<le> length d"
    and "gains w = replicate 10 0" and "bass_boost w = 0" and "treble_boost w = 0"
    and "\<not> is_bass_booster_active w"
    and "length (sos_filters w) \<le> 10"
    and "raw = take frames (drop (current_frame w) d)"
  shows "band_loop w (scale raw (preamp w)) 0 (sos_filters w) (scale raw (preamp w))
           = Inr (scale raw (preamp w))
       \<and> cb_outdata (callback w outdata frames) =
           (case np_clip_out (map (map (\<lambda>s. s * preamp w * master_vol w)) raw) outdata of
              Inl e \<Rightarrow> outdata
            | Inr clipped \<Rightarrow> clipped)
       \<and> (cb_raised (callback w outdata frames) = None \<longrightarrow>
            np_clip_out (map (map (\<lambda>s. s * preamp w * master_vol w)) raw) outdata
              = Inr (cb_outdata (callback w outdata frames)))
       \<and> (list_all2 (\<lambda>r orow. length r = length orow) raw outdata \<longrightarrow>
            cb_outdata (callback w outdata frames) = map (map (\<lambda>s. clip1 (s * preamp w * master_vol w))) raw)
       \<and> (length raw = length outdata \<and> (\<forall>r \<in> set raw. length r = 1) \<longrightarrow>
            cb_outdata (callback w outdata frames) =
              map2 (\<lambda>r orow. map (\<lambda>_. clip1 (hd r * preamp w * master_vol w)) orow) raw outdata)"
proof -
  let ?chunk = "scale raw (preamp w)"
  let ?processed = "map (map (\<lambda>s. s * preamp w * master_vol w)) raw"
  have loop: "band_loop w ?chunk 0 (sos_filters w) ?chunk = Inr ?chunk"
    using assms(4-8) by (intro band_loop_flat) simp_all
  have p: "scale ?chunk (master_vol w) = ?processed"
    by (simp add: scale_def comp_def)
  have out: "cb_outdata (callback w outdata frames) =
           (case np_clip_out ?processed outdata of Inl e \<Rightarrow> outdata | Inr clipped \<Rightarrow> clipped)"
    using assms(1-3) loop [unfolded assms(9)] p [unfolded assms(9)] unfolding assms(9)
    by (simp add: callback_def Let_def split: sum.splits)
  have written: "np_clip_out ?processed outdata = Inr (cb_outdata (callback w outdata frames))"
    if "cb_raised (callback w outdata frames) = None"
    using that assms(1-3) loop [unfolded assms(9)] p [unfolded assms(9)] unfolding assms(9)
    by (auto simp: callback_def Let_def split: sum.splits)
  have same: "cb_outdata (callback w outdata frames) = map (map (\<lambda>s. clip1 (s * preamp w * master_vol w))) raw"
    if "list_all2 (\<lambda>r orow. length r = length orow) raw outdata"
  proof -
    from that have "list_all2 (\<lambda>r orow. length r = length orow) ?processed outdata"
      by (simp add: list_all2_map1)
    then have "np_clip_out ?processed outdata = Inr (map (map clip1) ?processed)"
      by (rule np_clip_out_same_shape)
    with out show ?thesis by (simp add: comp_def)
  qed
  have mono: "cb_outdata (callback w outdata frames) =
              map2 (\<lambda>r orow. map (\<lambda>_. clip1 (hd r * preamp w * master_vol w)) orow) raw outdata"
    if "length raw = length outdata \<and> (\<forall>r \<in> set raw. length r = 1)"
  proof -
    from that have "np_clip_out ?processed outdata =
        Inr (map2 (\<lambda>r orow. map (\<lambda>_. clip1 (hd r)) orow) ?processed outdata)"
      by (intro np_clip_out_mono) auto
    also have "map2 (\<lambda>r orow. map (\<lambda>_. clip1 (hd r)) orow) ?processed outdata
        = map2 (\<lambda>r orow. map (\<lambda>_. clip1 (hd r * preamp w * master_vol w)) orow) raw outdata"
    proof -
      have "hd (map (\<lambda>s. s * preamp w * master_vol w) r) = hd r * preamp w * master_vol w"
        if "r \<in> set raw" for r
      proof -
        from that \<open>length raw = length outdata \<and> (\<forall>r \<in> set raw. length r = 1)\<close>
        have "length r = 1" by simp
        then obtain x where "r = [x]" by (metis One_nat_def length_0_conv length_Suc_conv)
        then show ?thesis by simp
      qed
      then show ?thesis
        by (auto simp: zip_map1 intro!: map_cong dest: set_zip_leftD)
    qed
    finally show ?thesis using out by simp
  qed
  from loop out written same mono show ?thesis by blast
qed

theorem identity_path_witness:
  "is_playing flat_worker \<and> gains flat_worker = replicate 10 0
   \<and> cb_outdata (callback flat_worker [[0, 0], [0, 0]] 2) = [[1/2, -1], [1, 1/4]]
   \<and> cb_outdata (callback mono_worker [[0, 0], [0, 0]] 2) = [[1/2, 1/2], [-1, -1]]"
proof -
  note a = identity_path [of flat_worker "[[1/2, -2], [3, 1/4]]" 2 "[[1/2, -2], [3, 1/4]]" "[[0, 0], [0, 0]]"]
  note b = identity_path [of mono_worker "[[1/2], [-2]]" 2 "[[1/2], [-2]]" "[[0, 0], [0, 0]]"]
  have "cb_outdata (callback flat_worker [[0, 0], [0, 0]] 2) = [[1/2, -1], [1, 1/4]]"
    using a by (simp add: flat_worker_def clip1_def np_clip_out_def clip_row_def)
  moreover have "cb_outdata (callback mono_worker [[0, 0], [0, 0]] 2) = [[1/2, 1/2], [-1, -1]]"
    using b by (simp add: mono_worker_def clip1_def np_clip_out_def clip_row_def)
  ultimately show ?thesis by (simp add: flat_worker_def)
qed

subsection \<open>The clipping boundary\<close>

lemma overflow_bound_gt: "2 ^ 1023 < overflow_bound"
proof -
  have "(2::real) ^ 970 < 2 ^ 1023" by (rule power_strict_increasing) simp_all
  moreover have "(2::real) ^ 1024 = 2 * 2 ^ 1023"
    using power_Suc [of "2::real" 1023] by simp
  ultimately show ?thesis by (simp add: overflow_bound_def)
qed

lemma f64_of_Fin: "\<bar>x\<bar> \<le> 2 ^ 1023 \<Longrightarrow> f64_of x = Fin x"
  using overflow_bound_gt by (auto simp: f64_of_def)

lemma f64_of_overflow: "f64_of (2 ^ 1023 * 2) = PosInf"
proof -
  have "(2::real) ^ 1024 = 2 ^ 1023 * 2"
    using power_Suc2 [of "2::real" 1023] by simp
  then have "overflow_bound \<le> 2 ^ 1023 * 2"
    by (simp add: overflow_bound_def)
  then show ?thesis by (simp add: f64_of_def)
qed

lemma fclip_range: "fclip x = NaN \<or> (\<exists>y. fclip x = Fin y \<and> \<bar>y\<bar> \<le> 1)"
  by (cases x) (simp_all add: clip1_bound)

lemma fclip_NaN: "fclip x = NaN \<longleftrightarrow> x = NaN"
  by (cases x) simp_all

lemma clip_row_f_source:
  assumes "clip_row_f r orow = Some c" and "s \<in> set c"
  shows "\<exists>x \<in> set r. s = fclip x"
proof (cases "length r = length orow")
  case True
  with assms show ?thesis by (auto simp: clip_row_f_def)
next
  case False
  with assms have l: "length r = 1" and s: "s = fclip (hd r)"
    by (auto simp: clip_row_f_def split: if_splits)
  from l obtain x where "r = [x]" by (metis One_nat_def length_0_conv length_Suc_conv)
  with s show ?thesis by simp
qed

lemma np_clip_out_f_source:
  assumes "np_clip_out_f a out = Inr c" and "row \<in> set c" and "s \<in> set row"
  shows "\<exists>r \<in> set a. \<exists>x \<in> set r. s = fclip x"
proof -
  from assms(1) obtain ps where
    ps: "ps = zip a out \<or> (length a = 1 \<and> ps = map (\<lambda>orow. (hd a, orow)) out)" and
    all: "list_all (\<lambda>(r, orow). clip_row_f r orow \<noteq> None) ps" and
    c: "c = map (\<lambda>(r, orow). the (clip_row_f r orow)) ps"
    by (auto simp: np_clip_out_f_def Let_def split: option.splits if_splits)
  from assms(2) c obtain r orow where in_ps: "(r, orow) \<in> set ps" and row: "row = the (clip_row_f r orow)"
    by auto
  with all obtain c' where cr: "clip_row_f r orow = Some c'" and "row = c'"
    by (auto simp: list_all_iff)
  with assms(3) have "\<exists>x \<in> set r. s = fclip x" by (auto dest: clip_row_f_source)
  moreover have "r \<in> set a"
  proof -
    from ps show ?thesis
    proof
      assume "ps = zip a out"
      with in_ps show ?thesis by (auto dest: set_zip_leftD)
    next
      assume h: "length a = 1 \<and> ps = map (\<lambda>orow. (hd a, orow)) out"
      then obtain y where "a = [y]" by (metis One_nat_def length_0_conv length_Suc_conv)
      with h in_ps show ?thesis by auto
    qed
  qed
  ultimately show ?thesis by blast
qed

lemma callback64_written:
  assumes "\<not> (is_playing64 w \<and> data64 w \<noteq> None \<and> current_frame64 w + frames > length (the (data64 w)))"
    and "cb_raised64 (callback64 w outdata frames) = None"
  shows "(\<not> (is_playing64 w \<and> data64 w \<noteq> None) \<and> cb_outdata64 (callback64 w outdata frames) = fill0_f outdata)
       \<or> (is_playing64 w \<and> data64 w \<noteq> None \<and>
           (\<exists>p. processed64 w frames = Inr p
                \<and> np_clip_out_f p outdata = Inr (cb_outdata64 (callback64 w outdata frames))))"
  using assms
  by (auto simp: callback64_def Let_def split: sum.splits if_splits)

text \<open>
  C4 (amended). Unless the call returned early at the end of the buffer or an exception left
  it, every sample of the output buffer after \<open>callback\<close> is either NaN or a number of
  absolute value at most 1, for any samples, gains, boosts, pre-amp and master volume; and
  it is a number of absolute value at most 1 whenever no sample of the block before clipping
  is NaN. \<open>np.clip\<close> bounds the infinities but passes NaN on.
\<close>

theorem clipping_boundary:
  assumes "\<not> (is_playing64 w \<and> data64 w \<noteq> None \<and> current_frame64 w + frames > length (the (data64 w)))"
    and "cb_raised64 (callback64 w outdata frames) = None"
  shows "(\<forall>row \<in> set (cb_outdata64 (callback64 w outdata frames)). \<forall>s \<in> set row.
            s = NaN \<or> (\<exists>x. s = Fin x \<and> \<bar>x\<bar> \<le> 1))
       \<and> ((\<forall>p. is_playing64 w \<and> data64 w \<noteq> None \<and> processed64 w frames = Inr p \<longrightarrow>
                (\<forall>row \<in> set p. NaN \<notin> set row)) \<longrightarrow>
           (\<forall>row \<in> set (cb_outdata64 (callback64 w outdata frames)). \<forall>s \<in> set row.
              \<exists>x. s = Fin x \<and> \<bar>x\<bar> \<le> 1))"
proof -
  let ?out = "cb_outdata64 (callback64 w outdata frames)"
  from callback64_written [OF assms] show ?thesis
  proof
    assume "\<not> (is_playing64 w \<and> data64 w \<noteq> None) \<and> ?out = fill0_f outdata"
    then have "\<forall>row \<in> set ?out. \<forall>s \<in> set row. s = Fin 0"
      by (auto simp: fill0_f_def)
    then show ?thesis by fastforce
  next
    assume "is_playing64 w \<and> data64 w \<noteq> None \<and>
           (\<exists>p. processed64 w frames = Inr p \<and> np_clip_out_f p outdata = Inr ?out)"
    then obtain p where pl: "is_playing64 w \<and> data64 w \<noteq> None"
      and p: "processed64 w frames = Inr p" and c: "np_clip_out_f p outdata = Inr ?out"
      by blast
    have src: "\<exists>r \<in> set p. \<exists>x \<in> set r. s = fclip x" if "row \<in> set ?out" "s \<in> set row" for row s
      using c that by (rule np_clip_out_f_source)
    have a: "\<forall>row \<in> set ?out. \<forall>s \<in> set row. s = NaN \<or> (\<exists>x. s = Fin x \<and> \<bar>x\<bar> \<le> 1)"
    proof (intro ballI)
      fix row s assume "row \<in> set ?out" "s \<in> set row"
      from src [OF this] obtain x where "s = fclip x" by blast
      then show "s = NaN \<or> (\<exists>x. s = Fin x \<and> \<bar>x\<bar> \<le> 1)" using fclip_range [of x] by simp
    qed
    have b: "\<forall>row \<in> set ?out. \<forall>s \<in> set row. \<exists>x. s = Fin x \<and> \<bar>x\<bar> \<le> 1"
      if h: "\<forall>p. is_playing64 w \<and> data64 w \<noteq> None \<and> processed64 w frames = Inr p \<longrightarrow>
                (\<forall>row \<in> set p. NaN \<notin> set row)"
    proof (intro ballI)
      fix row s assume rs: "row \<in> set ?out" "s \<in> set row"
      from src [OF this] obtain r x where r: "r \<in> set p" "x \<in> set r" and s: "s = fclip x" by blast
      from h pl p r have "x \<noteq> NaN" by auto
      then have "s \<noteq> NaN" using s by (simp add: fclip_NaN)
      with a rs show "\<exists>x. s = Fin x \<and> \<bar>x\<bar> \<le> 1" by blast
    qed
    from a b show ?thesis by blast
  qed
qed

lemma small: "\<bar>x\<bar> \<le> 100 \<Longrightarrow> f64_of x = Fin x"
proof -
  assume "\<bar>x\<bar> \<le> 100"
  moreover have "(100::real) \<le> 2 ^ 1023"
  proof -
    have "(2::real) ^ 7 \<le> 2 ^ 1023" by (rule power_increasing) simp_all
    then show ?thesis by simp
  qed
  ultimately show ?thesis by (intro f64_of_Fin) linarith
qed

lemmas eval64 = callback64_def processed64_def Let_def scale_f_def add_scaled_f_def total_gain_f_def
  linear_gain_f_def fsub_def sosfilt_f_def along_axis0_def from_columns_def column_def ncols_def
  upt2 replicate10 np_clip_out_f_def clip_row_f_def clip1_def small

lemma loud64_out:
  "callback64 loud_worker64 [[Fin 0, Fin 0]] 1 =
     \<lparr>cb_worker64 = loud_worker64\<lparr>current_frame64 := 1\<rparr>,
      cb_outdata64 = [[Fin 1, Fin (- 1)]], cb_raised64 = None\<rparr>"
  by (simp add: loud_worker64_def eval64)

lemma overflow64_out:
  "callback64 overflow_worker64 [[Fin 0, Fin 0]] 1 =
     \<lparr>cb_worker64 = overflow_worker64\<lparr>current_frame64 := 1\<rparr>,
      cb_outdata64 = [[NaN, NaN]], cb_raised64 = None\<rparr>"
  by (simp add: overflow_worker64_def eval64 f64_of_def overflow_bound_def)

theorem clipping_boundary_witness:
  "cb_raised64 (callback64 loud_worker64 [[Fin 0, Fin 0]] 1) = None
   \<and> processed64 loud_worker64 1 = Inr [[Fin 10, Fin (- 40)]]
   \<and> cb_outdata64 (callback64 loud_worker64 [[Fin 0, Fin 0]] 1) = [[Fin 1, Fin (- 1)]]
   \<and> list_all (list_all (\<lambda>s. \<exists>x. s = Fin x \<and> \<bar>x\<bar> \<le> 1))
        (cb_outdata64 (callback64 loud_worker64 [[Fin 0, Fin 0]] 1))"
proof -
  have inside: "\<not> (is_playing64 loud_worker64 \<and> data64 loud_worker64 \<noteq> None
      \<and> current_frame64 loud_worker64 + 1 > length (the (data64 loud_worker64)))"
    by (simp add: loud_worker64_def)
  have quiet: "cb_raised64 (callback64 loud_worker64 [[Fin 0, Fin 0]] 1) = None"
    unfolding loud64_out by simp
  have p: "processed64 loud_worker64 1 = Inr [[Fin 10, Fin (- 40)]]"
    by (simp add: loud_worker64_def eval64)
  then have clean: "\<forall>p. is_playing64 loud_worker64 \<and> data64 loud_worker64 \<noteq> None
        \<and> processed64 loud_worker64 1 = Inr p \<longrightarrow> (\<forall>row \<in> set p. NaN \<notin> set row)"
    by simp
  from conjunct2 [OF clipping_boundary [OF inside quiet]] clean
  have "\<forall>row \<in> set (cb_outdata64 (callback64 loud_worker64 [[Fin 0, Fin 0]] 1)). \<forall>s \<in> set row.
      \<exists>x. s = Fin x \<and> \<bar>x\<bar> \<le> 1"
    by blast
  then have "list_all (list_all (\<lambda>s. \<exists>x. s = Fin x \<and> \<bar>x\<bar> \<le> 1))
        (cb_outdata64 (callback64 loud_worker64 [[Fin 0, Fin 0]] 1))"
    by (simp add: list_all_iff)
  with quiet p show ?thesis unfolding loud64_out by simp
qed

text \<open>
  Finite input, NaN out: the samples \<open>2^1023\<close> times the pre-amp 2.0 overflow to infinity,
  infinity times the master volume 0.0 is NaN, and \<open>np.clip\<close> stores NaN in the buffer;
  NaN is not a value of absolute value at most 1.
\<close>

theorem clipping_overflow_counterexample:
  "cb_raised64 (callback64 overflow_worker64 [[Fin 0, Fin 0]] 1) = None
   \<and> processed64 overflow_worker64 1 = Inr [[NaN, NaN]]
   \<and> cb_outdata64 (callback64 overflow_worker64 [[Fin 0, Fin 0]] 1) = [[NaN, NaN]]
   \<and> \<not> (\<exists>x. NaN = Fin x \<and> \<bar>x\<bar> \<le> 1)"
proof -
  have "processed64 overflow_worker64 1 = Inr [[NaN, NaN]]"
    by (simp add: overflow_worker64_def eval64 f64_of_def overflow_bound_def)
  then show ?thesis unfolding overflow64_out by simp
qed

subsection \<open>The band loop\<close>

lemma upt10: "[0..<10] = [0, 1, 2, 3, 4, 5, 6, 7, 8, 9]"
  by (simp add: upt_rec)

lemma along_axis0_unit:
  "along_axis0 (sosfilt_1d [(1, 0, 0, 1, 0, 0)]) [[a, b], [c, d]] = [[a, b], [c, d]]"
  by (simp add: along_axis0_def from_columns_def column_def ncols_def
      sosfilt_1d_def zero_delays_def upt2)

lemma total_gain_eq_spec: "total_gain w i = total_gain_spec w i"
  by (simp add: total_gain_def total_gain_spec_def Let_def)

lemma band_loop_spec:
  assumes "length (sos_filters w) \<le> length (gains w)"
    and "\<forall>sos \<in> set (sos_filters w). sos_valid sos"
  shows "n = length (sos_filters w) - i \<Longrightarrow> i \<le> length (sos_filters w) \<Longrightarrow>
         band_loop w chunk i (drop i (sos_filters w)) acc =
           Inr (foldl (band_step_spec w chunk) acc [i..<length (sos_filters w)])"
proof (induction n arbitrary: i acc)
  case 0
  then show ?case by simp
next
  case (Suc n)
  let ?bank = "sos_filters w"
  from Suc.prems have i: "i < length ?bank" by simp
  then have d: "drop i ?bank = ?bank ! i # drop (Suc i) ?bank"
    by (simp add: Cons_nth_drop_Suc)
  have u: "[i..<length ?bank] = i # [Suc i..<length ?bank]"
    using i by (simp add: upt_conv_Cons)
  have v: "sos_valid (?bank ! i)" using assms(2) i by simp
  have g: "i < length (gains w)" using assms(1) i by simp
  have ih: "band_loop w chunk (Suc i) (drop (Suc i) ?bank) acc' =
      Inr (foldl (band_step_spec w chunk) acc' [Suc i..<length ?bank])" for acc'
    using Suc.prems i by (intro Suc.IH) simp_all
  have step: "band_step_spec w chunk acc i =
      (if total_gain w i \<noteq> 0
       then add_scaled acc (along_axis0 (sosfilt_1d (?bank ! i)) chunk) (10 powr (total_gain w i / 20) - 1)
       else acc)"
    by (simp add: band_step_spec_def total_gain_eq_spec)
  show ?case
    unfolding d u using v g
    by (simp add: ih sosfilt_def step linear_gain_def)
qed

text \<open>
  C2. With ten gains and ten valid filters, the loop of \<open>callback\<close> is the fold over the band
  indices 0..9 of the specification's step: the gain of band \<open>i\<close> is
  \<open>bandGain[i] + (bassBoost if i \<le> 2) + (8.0 if i \<le> 2 and the booster is on) +
  (trebleBoost if i \<ge> 7)\<close>; a band whose gain is not zero adds its filtered chunk times
  \<open>10^(gain/20) - 1\<close> to the accumulator, a band whose gain is zero leaves the accumulator
  as it is and its filter is not run. The accumulator starts as the pre-amplified chunk,
  and the block written is the clipped, master-volume-scaled accumulator.
\<close>

theorem band_gain_synthesis:
  assumes "is_playing w" and "data w = Some d" and "current_frame w + frames \<le> length d"
    and "length (gains w) = 10" and "length (sos_filters w) = 10"
    and "\<forall>sos \<in> set (sos_filters w). sos_valid sos"
    and "chunk = scale (take frames (drop (current_frame w) d)) (preamp w)"
  shows "band_loop w chunk 0 (sos_filters w) chunk = Inr (foldl (band_step_spec w chunk) chunk [0..<10])
       \<and> cb_outdata (callback w outdata frames) =
           (case np_clip_out (scale (foldl (band_step_spec w chunk) chunk [0..<10]) (master_vol w)) outdata of
              Inl e \<Rightarrow> outdata
            | Inr clipped \<Rightarrow> clipped)"
proof -
  have loop: "band_loop w chunk 0 (sos_filters w) chunk = Inr (foldl (band_step_spec w chunk) chunk [0..<10])"
  proof -
    have "band_loop w chunk 0 (drop 0 (sos_filters w)) chunk =
        Inr (foldl (band_step_spec w chunk) chunk [0..<length (sos_filters w)])"
      using assms(4-6) by (intro band_loop_spec [where n = "length (sos_filters w) - 0"]) simp_all
    then show ?thesis unfolding assms(5) by (simp only: drop_0)
  qed
  have "cb_outdata (callback w outdata frames) =
           (case np_clip_out (scale (foldl (band_step_spec w chunk) chunk [0..<10]) (master_vol w)) outdata of
              Inl e \<Rightarrow> outdata
            | Inr clipped \<Rightarrow> clipped)"
    using assms(1-3) loop [unfolded assms(7)] unfolding assms(7)
    by (simp add: callback_def Let_def del: upt_Suc split: sum.splits)
  with loop show ?thesis by simp
qed

theorem band_gain_synthesis_witness:
  "length (gains bass_worker) = 10 \<and> length (sos_filters bass_worker) = 10
   \<and> map (total_gain_spec bass_worker) [0, 1, 2, 3] = [20, 0, 0, 0]
   \<and> band_loop bass_worker [[1/2, -2], [3, 1/4]] 0 (sos_filters bass_worker) [[1/2, -2], [3, 1/4]]
       = Inr [[5, -20], [30, 5/2]]
   \<and> cb_outdata (callback bass_worker [[0, 0], [0, 0]] 2) = [[1/4, -1], [1, 1/8]]"
  using band_gain_synthesis [of bass_worker "[[1/2, -2], [3, 1/4]]" 2 "[[1/2, -2], [3, 1/4]]" "[[0, 0], [0, 0]]"]
  by (simp add: bass_worker_def scale_def upt10 band_step_spec_def total_gain_spec_def
      along_axis0_unit add_scaled_def np_clip_out_def clip_row_def clip1_def sos_valid_def)

subsection \<open>The end of the buffer\<close>

text \<open>
  C3. When the next \<open>frames\<close> frames would pass the end of the buffer, \<open>callback\<close> sets
  \<open>is_playing\<close> to False and returns with the device's buffer exactly as it found it: it
  emits nothing and raises nothing, but it does not fill the buffer with zeros either, so
  the call does not output silence.
\<close>

theorem end_of_buffer_leaves_outdata:
  assumes "is_playing w" and "data w = Some d" and "current_frame w + frames > length d"
  shows "callback w outdata frames =
           \<lparr>cb_worker = w\<lparr>is_playing := False\<rparr>, cb_outdata = outdata,
            cb_emitted = None, cb_raised = None\<rparr>"
  using assms by (simp add: callback_def)

text \<open>
  A buffer of 3 frames played in blocks of 2: the first block has been played
  (\<open>current_frame = 2\<close>, the largest multiple of 2 below 3) and the device's buffer still
  holds it. The next call leaves those samples in the buffer; only the call after it,
  which finds \<open>is_playing\<close> False, writes zeros.
\<close>

theorem end_of_buffer_leaves_outdata_witness:
  "callback tail_worker [[2/5, -2/5], [1/5, 3/5]] 2 =
     \<lparr>cb_worker = tail_worker\<lparr>is_playing := False\<rparr>, cb_outdata = [[2/5, -2/5], [1/5, 3/5]],
      cb_emitted = None, cb_raised = None\<rparr>
   \<and> [[2/5, -2/5], [1/5, 3/5]] \<noteq> fill0 [[2/5, -2/5], [1/5, 3/5]]
   \<and> cb_outdata (callback (tail_worker\<lparr>is_playing := False\<rparr>) [[2/5, -2/5], [1/5, 3/5]] 2)
       = [[0, 0], [0, 0]]"
proof -
  have "callback tail_worker [[2/5, -2/5], [1/5, 3/5]] 2 =
     \<lparr>cb_worker = tail_worker\<lparr>is_playing := False\<rparr>, cb_outdata = [[2/5, -2/5], [1/5, 3/5]],
      cb_emitted = None, cb_raised = None\<rparr>"
    by (rule end_of_buffer_leaves_outdata [where d = "[[1/2, -1/2], [1/4, 3/4], [1/8, 1/8]]"])
      (simp_all add: tail_worker_def)
  moreover have "cb_outdata (callback (tail_worker\<lparr>is_playing := False\<rparr>) [[2/5, -2/5], [1/5, 3/5]] 2)
       = [[0, 0], [0, 0]]"
    by (simp add: callback_def fill0_def)
  ultimately show ?thesis by (simp add: fill0_def)
qed

subsection \<open>Rebuilding the filter bank\<close>

lemma bessel_band:
  assumes "0 < freq"
  shows "bessel design (band_low freq) (band_high freq rate) rate =
           (if band_low freq < band_high freq rate
            then Inr (design (band_low freq) (band_high freq rate) rate) else Inl ValueError)"
proof -
  have low: "0 < band_low freq" using assms by (simp add: band_low_def)
  have "band_high freq rate \<le> real_of_int rate / 2 - 1" by (simp add: band_high_def)
  then have high: "band_high freq rate < real_of_int rate / 2" by linarith
  consider "rate = 0" | "rate < 0" | "0 < rate" by linarith
  then show ?thesis
  proof cases
    case 1
    with low high show ?thesis by (simp add: bessel_def)
  next
    case 2
    then have "2 * band_low freq / real_of_int rate < 0" using low
      by (simp add: divide_neg_neg field_simps)
    moreover have "\<not> band_low freq < band_high freq rate" using low high 2 by simp
    ultimately show ?thesis using 2 by (simp add: bessel_def Let_def)
  next
    case 3
    then have r: "0 < real_of_int rate" by simp
    have a: "0 < 2 * band_low freq / real_of_int rate" using low r by simp
    have b: "2 * band_high freq rate / real_of_int rate < 1" using high r by (simp add: field_simps)
    have c: "(2 * band_low freq / real_of_int rate < 2 * band_high freq rate / real_of_int rate)
        = (band_low freq < band_high freq rate)" using r by (simp add: field_simps)
    have d: "band_low freq < band_high freq rate \<Longrightarrow> 0 < 2 * band_high freq rate / real_of_int rate"
      using low r by simp
    have e: "band_low freq < band_high freq rate \<Longrightarrow> 2 * band_low freq / real_of_int rate < 1"
      using b c by linarith
    show ?thesis using 3 a b c d e
      by (auto simp: bessel_def Let_def not_le not_less)
  qed
qed

lemma filters_loop_eq:
  assumes "\<forall>freq \<in> set bands. 0 < freq"
  shows "filters_loop design rate bands built =
           (built @ map (band_sos design rate) (takeWhile (band_ok rate) bands),
            if list_all (band_ok rate) bands then None else Some ValueError)"
  using assms
proof (induction bands arbitrary: built)
  case Nil
  show ?case by simp
next
  case (Cons freq rest)
  then have "0 < freq" by simp
  then show ?case using Cons
    by (simp add: bessel_band band_ok_def band_sos_def)
qed

lemma BANDS_positive: "\<forall>freq \<in> set BANDS. 0 < freq"
  by (simp add: BANDS_def)

lemma update_filters_eq:
  "update_filters design w =
     (w\<lparr>sos_filters := map (band_sos design (fs w)) (takeWhile (band_ok (fs w)) BANDS)\<rparr>,
      if list_all (band_ok (fs w)) BANDS then None else Some ValueError)"
  by (simp add: update_filters_def filters_loop_eq [OF BANDS_positive])

lemma nonpositive_rate_refused: "rate \<le> 0 \<Longrightarrow> \<not> band_ok rate 32"
  by (simp add: band_ok_def band_low_def band_high_def)

lemma length_takeWhile_less:
  "\<not> list_all P xs \<Longrightarrow> length (takeWhile P xs) < length xs"
  by (induction xs) auto

text \<open>
  C6 (amended). When some band's low cutoff is not below its high cutoff at the worker's
  sample rate, \<open>_update_filters\<close> raises ValueError at the first such band: the bank is
  left with the filters of the bands before it only, fewer than ten, and no band gets a
  pass-through filter.
\<close>

theorem degenerate_band_raises:
  assumes "\<exists>freq \<in> set BANDS. band_low freq \<ge> band_high freq (fs w)"
  shows "update_filters design w =
           (w\<lparr>sos_filters := map (band_sos design (fs w)) (takeWhile (band_ok (fs w)) BANDS)\<rparr>,
            Some ValueError)
         \<and> length (sos_filters (fst (update_filters design w))) < 10"
proof -
  from assms obtain freq where "freq \<in> set BANDS" "\<not> band_ok (fs w) freq"
    by (auto simp: band_ok_def not_less)
  then have n: "\<not> list_all (band_ok (fs w)) BANDS"
    by (auto simp: list_all_iff)
  then have "length (takeWhile (band_ok (fs w)) BANDS) < length BANDS"
    by (rule length_takeWhile_less)
  then have "length (takeWhile (band_ok (fs w)) BANDS) < 10" by (simp add: BANDS_def)
  with n show ?thesis by (simp add: update_filters_eq)
qed

theorem degenerate_band_raises_witness:
  "band_low 16000 \<ge> band_high 16000 22050
   \<and> snd (update_filters sample_design (AudioWorker_init\<lparr>fs := 22050\<rparr>)) = Some ValueError
   \<and> length (sos_filters (fst (update_filters sample_design (AudioWorker_init\<lparr>fs := 22050\<rparr>)))) < 10"
proof -
  have h: "band_low 16000 \<ge> band_high 16000 22050"
    by (simp add: band_low_def band_high_def)
  then have "\<exists>freq \<in> set BANDS. band_low freq \<ge> band_high freq (fs (AudioWorker_init\<lparr>fs := 22050\<rparr>))"
    by (simp add: BANDS_def)
  note r = degenerate_band_raises [OF this, of sample_design]
  have "snd (update_filters sample_design (AudioWorker_init\<lparr>fs := 22050\<rparr>)) = Some ValueError"
    using r by simp
  with h conjunct2 [OF r] show ?thesis by simp
qed

text \<open>
  At 22050 Hz the band at 16 kHz has low cutoff 11312 and high cutoff 11024: the rebuild
  raises ValueError and leaves nine filters, so the claim that it does not raise fails.
\<close>

theorem degenerate_band_counterexample:
  "band_low 16000 \<ge> band_high 16000 22050
   \<and> update_filters sample_design (AudioWorker_init\<lparr>fs := 22050\<rparr>) =
       (AudioWorker_init\<lparr>fs := 22050, sos_filters := replicate 9 [(1, 0, -1, 1, 0, 0), (1, 0, 0, 1, 0, 0)]\<rparr>,
        Some ValueError)"
  by (simp add: update_filters_eq BANDS_def band_ok_def band_low_def band_high_def band_sos_def
      sample_design_def AudioWorker_init_def numeral_eq_Suc)

subsection \<open>Loading\<close>

text \<open>
  C7 (amended). \<open>load_file\<close> checks nothing itself: it stores the buffer and the sample
  rate and resets the position to zero in every case, an empty buffer included, and then
  rebuilds the bank. It fails exactly when the filter design refuses a band at that rate,
  with ValueError and after the buffer, the rate and the position have been replaced; this
  covers every sample rate that is zero or negative. When every band is accepted the call
  does not fail and the bank holds the ten filters designed for the new rate.
\<close>

theorem load_file_behaviour:
  "data (fst (load_file design w (d, rate))) = Some d
   \<and> fs (fst (load_file design w (d, rate))) = rate
   \<and> current_frame (fst (load_file design w (d, rate))) = 0
   \<and> snd (load_file design w (d, rate)) =
        (if list_all (band_ok rate) BANDS then None else Some ValueError)
   \<and> (list_all (band_ok rate) BANDS \<longrightarrow>
        sos_filters (fst (load_file design w (d, rate))) = map (band_sos design rate) BANDS)
   \<and> (rate \<le> 0 \<longrightarrow> snd (load_file design w (d, rate)) = Some ValueError)"
proof -
  have neg: "rate \<le> 0 \<Longrightarrow> \<not> list_all (band_ok rate) BANDS"
    using nonpositive_rate_refused [of rate] by (simp add: BANDS_def)
  show ?thesis
  proof (cases "list_all (band_ok rate) BANDS")
    case True
    then have tw: "takeWhile (band_ok rate) BANDS = BANDS"
      by (simp add: list_all_iff)
    from True neg show ?thesis
      by (auto simp: load_file_def Let_def update_filters_eq tw)
  next
    case False
    then show ?thesis
      by (simp add: load_file_def Let_def update_filters_eq)
  qed
qed

theorem load_file_behaviour_witness:
  "load_file sample_design AudioWorker_init ([[1/2, 1/4]], 48000) =
     (AudioWorker_init\<lparr>data := Some [[1/2, 1/4]], fs := 48000,
        sos_filters := replicate 10 [(1, 0, -1, 1, 0, 0), (1, 0, 0, 1, 0, 0)]\<rparr>, None)
   \<and> snd (load_file sample_design AudioWorker_init ([[1/2, 1/4]], 0)) = Some ValueError"
  using load_file_behaviour [of sample_design AudioWorker_init "[[1/2, 1/4]]" 48000]
    load_file_behaviour [of sample_design AudioWorker_init "[[1/2, 1/4]]" 0]
  apply (simp add: load_file_def update_filters_eq)
  apply (simp add: BANDS_def band_ok_def band_low_def band_high_def band_sos_def
      sample_design_def AudioWorker_init_def numeral_eq_Suc)
  done

text \<open>
  An empty buffer at 44100 Hz is loaded without any error, so the claim that an empty
  buffer makes \<open>load\<close> fail does not hold.
\<close>

theorem load_empty_buffer_counterexample:
  "load_file sample_design AudioWorker_init ([], 44100) =
     (AudioWorker_init\<lparr>data := Some [],
        sos_filters := replicate 10 [(1, 0, -1, 1, 0, 0), (1, 0, 0, 1, 0, 0)]\<rparr>, None)"
  by (simp add: load_file_def update_filters_eq BANDS_def band_ok_def band_low_def band_high_def
      band_sos_def sample_design_def AudioWorker_init_def numeral_eq_Suc)

subsection \<open>Gain and added energy\<close>

lemma linear_gain_mono: "g \<le> g' \<Longrightarrow> linear_gain g \<le> linear_gain g'"
  by (simp add: linear_gain_def powr_mono)

lemma linear_gain_zero: "linear_gain 0 = 0"
  by (simp add: linear_gain_def)

lemma band_contribution_eq: "band_contribution w i x = x * linear_gain (total_gain w i)"
  by (simp add: band_contribution_def linear_gain_zero)

lemma total_gain_update:
  "i < length (gains w) \<Longrightarrow>
   total_gain (w\<lparr>gains := (gains w)[i := g']\<rparr>) i = total_gain w i + (g' - gains w ! i)"
  by (simp add: total_gain_def Let_def)

text \<open>
  C9 (amended). Raising one band's gain, all else fixed, never lowers the magnitude of what
  the band adds to a sample as long as the band's total gain is zero or more before the
  change; when the total gain is still zero or less after the change, the magnitude never
  grows. The magnitude is \<open>|x| * |10^(g/20) - 1|\<close>, least (zero) at \<open>g = 0\<close>.
\<close>

theorem gain_monotone_by_sign:
  assumes "i < length (gains w)" and "gains w ! i \<le> g'"
  shows "(0 \<le> total_gain w i \<longrightarrow>
            \<bar>band_contribution w i x\<bar> \<le> \<bar>band_contribution (w\<lparr>gains := (gains w)[i := g']\<rparr>) i x\<bar>)
       \<and> (total_gain (w\<lparr>gains := (gains w)[i := g']\<rparr>) i \<le> 0 \<longrightarrow>
            \<bar>band_contribution (w\<lparr>gains := (gains w)[i := g']\<rparr>) i x\<bar> \<le> \<bar>band_contribution w i x\<bar>)"
proof -
  let ?w' = "w\<lparr>gains := (gains w)[i := g']\<rparr>"
  have le: "total_gain w i \<le> total_gain ?w' i"
    using assms by (simp add: total_gain_update)
  then have m: "linear_gain (total_gain w i) \<le> linear_gain (total_gain ?w' i)"
    by (rule linear_gain_mono)
  have up: "\<bar>x * linear_gain (total_gain w i)\<bar> \<le> \<bar>x * linear_gain (total_gain ?w' i)\<bar>"
    if "0 \<le> total_gain w i"
  proof -
    have "0 \<le> linear_gain (total_gain w i)"
      using linear_gain_mono [OF that] by (simp add: linear_gain_zero)
    with m show ?thesis by (simp add: abs_mult mult_left_mono)
  qed
  have down: "\<bar>x * linear_gain (total_gain ?w' i)\<bar> \<le> \<bar>x * linear_gain (total_gain w i)\<bar>"
    if "total_gain ?w' i \<le> 0"
  proof -
    have "linear_gain (total_gain ?w' i) \<le> 0"
      using linear_gain_mono [OF that] by (simp add: linear_gain_zero)
    with m show ?thesis by (simp add: abs_mult mult_left_mono)
  qed
  from up down show ?thesis by (simp add: band_contribution_eq)
qed

theorem gain_monotone_by_sign_witness:
  "total_gain bass_worker 0 = 20
   \<and> \<bar>band_contribution bass_worker 0 (1/2)\<bar>
       \<le> \<bar>band_contribution (bass_worker\<lparr>gains := (gains bass_worker)[0 := 6]\<rparr>) 0 (1/2)\<bar>
   \<and> total_gain (cut_worker\<lparr>gains := (gains cut_worker)[3 := -10]\<rparr>) 3 = -10
   \<and> \<bar>band_contribution (cut_worker\<lparr>gains := (gains cut_worker)[3 := -10]\<rparr>) 3 (1/2)\<bar>
       \<le> \<bar>band_contribution cut_worker 3 (1/2)\<bar>"
  using gain_monotone_by_sign [of 0 bass_worker 6 "1/2"]
    gain_monotone_by_sign [of 3 cut_worker "-10" "1/2"]
  by (simp add: bass_worker_def cut_worker_def AudioWorker_init_def total_gain_def)

text \<open>
  Raising the gain of band 3 from -15 dB to -10 dB, with no boost, makes the band's
  contribution smaller in magnitude: the claim fails over the negative half of the range.
\<close>

theorem gain_monotone_counterexample:
  "total_gain cut_worker 3 = -15
   \<and> total_gain (cut_worker\<lparr>gains := (gains cut_worker)[3 := -10]\<rparr>) 3 = -10
   \<and> \<bar>band_contribution (cut_worker\<lparr>gains := (gains cut_worker)[3 := -10]\<rparr>) 3 1\<bar>
       < \<bar>band_contribution cut_worker 3 1\<bar>"
proof -
  have a: "total_gain cut_worker 3 = -15"
    by (simp add: cut_worker_def total_gain_def)
  have b: "total_gain (cut_worker\<lparr>gains := (gains cut_worker)[3 := -10]\<rparr>) 3 = -10"
    by (simp add: cut_worker_def total_gain_def)
  have lt: "(10::real) powr (- 15 / 20) < 10 powr (- 10 / 20)"
    by (rule powr_less_mono) simp_all
  have one: "(10::real) powr (- 10 / 20) < 1"
    using powr_less_mono [of "- 10 / 20" 0 "10::real"] by simp
  from lt one have "\<bar>linear_gain (- 10)\<bar> < \<bar>linear_gain (- 15)\<bar>"
    unfolding linear_gain_def by linarith
  with a b show ?thesis by (simp add: band_contribution_def)
qed

subsection \<open>Presets\<close>

lemma preset_step:
  assumes "i < length (band_sliders a)" and "i < length (gains (worker a))"
  shows "\<exists>a1 a2. slider_setValue a i gain = (a1, None) \<and> set_gain a1 i gain = (a2, None)
           \<and> gains (worker a2) = (gains (worker a))[i := real_of_int gain]
           \<and> length (band_sliders a2) = length (band_sliders a)"
  using assms
  by (auto simp: slider_setValue_def update_band_def set_gain_def Let_def)

lemma preset_loop_effect:
  "i + length p \<le> length (band_sliders a) \<Longrightarrow> i + length p \<le> length (gains (worker a)) \<Longrightarrow>
   snd (preset_loop a i p) = None
   \<and> length (gains (worker (fst (preset_loop a i p)))) = length (gains (worker a))
   \<and> (\<forall>j < length (gains (worker a)).
         gains (worker (fst (preset_loop a i p))) ! j =
           (if i \<le> j \<and> j < i + length p then real_of_int (p ! (j - i)) else gains (worker a) ! j))"
proof (induction p arbitrary: a i)
  case Nil
  show ?case by simp
next
  case (Cons gain rest)
  then have i1: "i < length (band_sliders a)" and i2: "i < length (gains (worker a))" by simp_all
  from preset_step [OF i1 i2, of gain] obtain a1 a2 where
    s1: "slider_setValue a i gain = (a1, None)" and s2: "set_gain a1 i gain = (a2, None)" and
    g: "gains (worker a2) = (gains (worker a))[i := real_of_int gain]" and
    l: "length (band_sliders a2) = length (band_sliders a)"
    by blast
  have step: "preset_loop a i (gain # rest) = preset_loop a2 (Suc i) rest"
    using s1 s2 by simp
  have p1: "Suc i + length rest \<le> length (band_sliders a2)" using Cons.prems l by simp
  have p2: "Suc i + length rest \<le> length (gains (worker a2))" using Cons.prems g by simp
  note ih = Cons.IH [OF p1 p2]
  show ?case unfolding step using ih g i2
    by (auto simp: nth_list_update nth_Cons' Suc_diff_le)
qed

lemma PRESETS_names:
  "dom PRESETS = {''Flat'', ''Rock'', ''Pop'', ''Jazz'', ''Classical'', ''Electronic'', ''Vocal''}"
  by (auto simp: PRESETS_def PRESETS_table_def dom_def split: if_splits)

lemma PRESETS_length: "PRESETS name = Some p \<Longrightarrow> length p = 10"
  by (auto simp: PRESETS_def PRESETS_table_def split: if_splits)

text \<open>
  C10. For a name that is not one of the seven preset names, \<open>apply_preset\<close> returns the
  application unchanged and raises nothing. For a preset name, with the ten sliders and
  ten gains of the window, it raises nothing and leaves the band gains equal to the ten
  values of that preset's table, entry for entry.
\<close>

theorem apply_preset_effect:
  "(name \<notin> {''Flat'', ''Rock'', ''Pop'', ''Jazz'', ''Classical'', ''Electronic'', ''Vocal''} \<longrightarrow>
      apply_preset a name = (a, None))
   \<and> (\<forall>p. PRESETS name = Some p \<and> length (band_sliders a) = 10 \<and> length (gains (worker a)) = 10 \<longrightarrow>
        length p = 10 \<and> snd (apply_preset a name) = None
        \<and> gains (worker (fst (apply_preset a name))) = map real_of_int p)"
proof -
  have unknown: "apply_preset a name = (a, None)"
    if "name \<notin> {''Flat'', ''Rock'', ''Pop'', ''Jazz'', ''Classical'', ''Electronic'', ''Vocal''}"
  proof -
    have "name \<notin> dom PRESETS" unfolding PRESETS_names by (rule that)
    then have "PRESETS name = None" by (simp add: domIff)
    then show ?thesis by (simp add: apply_preset_def)
  qed
  have known: "length p = 10 \<and> snd (apply_preset a name) = None
        \<and> gains (worker (fst (apply_preset a name))) = map real_of_int p"
    if "PRESETS name = Some p" "length (band_sliders a) = 10" "length (gains (worker a)) = 10" for p
  proof -
    have len: "length p = 10" using that(1) by (rule PRESETS_length)
    have ap: "apply_preset a name = preset_loop a 0 p" using that(1) by (simp add: apply_preset_def)
    have e: "snd (preset_loop a 0 p) = None
       \<and> length (gains (worker (fst (preset_loop a 0 p)))) = length (gains (worker a))
       \<and> (\<forall>j < length (gains (worker a)).
         gains (worker (fst (preset_loop a 0 p))) ! j =
           (if 0 \<le> j \<and> j < 0 + length p then real_of_int (p ! (j - 0)) else gains (worker a) ! j))"
      using that(2,3) len by (intro preset_loop_effect) simp_all
    have "gains (worker (fst (preset_loop a 0 p))) = map real_of_int p"
      using e len that(3) by (intro nth_equalityI) simp_all
    with e len ap show ?thesis by simp
  qed
  have A: "name \<notin> {''Flat'', ''Rock'', ''Pop'', ''Jazz'', ''Classical'', ''Electronic'', ''Vocal''} \<longrightarrow>
      apply_preset a name = (a, None)"
    by (rule impI) (rule unknown)
  have B: "\<forall>p. PRESETS name = Some p \<and> length (band_sliders a) = 10 \<and> length (gains (worker a)) = 10 \<longrightarrow>
        length p = 10 \<and> snd (apply_preset a name) = None
        \<and> gains (worker (fst (apply_preset a name))) = map real_of_int p"
  proof (rule allI, rule impI)
    fix p
    assume h: "PRESETS name = Some p \<and> length (band_sliders a) = 10 \<and> length (gains (worker a)) = 10"
    show "length p = 10 \<and> snd (apply_preset a name) = None
        \<and> gains (worker (fst (apply_preset a name))) = map real_of_int p"
      by (rule known) (use h in simp_all)
  qed
  from A B show ?thesis by (rule conjI)
qed

theorem apply_preset_effect_witness:
  "apply_preset EqualizerApp_init ''Metal'' = (EqualizerApp_init, None)
   \<and> PRESETS ''Rock'' = Some [5, 4, 3, 0, -1, -1, 0, 3, 4, 5]
   \<and> snd (apply_preset EqualizerApp_init ''Rock'') = None
   \<and> gains (worker (fst (apply_preset EqualizerApp_init ''Rock''))) = [5, 4, 3, 0, -1, -1, 0, 3, 4, 5]"
proof -
  have r: "PRESETS ''Rock'' = Some [5, 4, 3, 0, -1, -1, 0, 3, 4, 5]"
    by (simp add: PRESETS_def PRESETS_table_def)
  have l: "length (band_sliders EqualizerApp_init) = 10 \<and> length (gains (worker EqualizerApp_init)) = 10"
    by (simp add: EqualizerApp_init_def AudioWorker_init_def BANDS_def)
  from apply_preset_effect [of "''Metal''" EqualizerApp_init]
  have m: "apply_preset EqualizerApp_init ''Metal'' = (EqualizerApp_init, None)" by simp
  from apply_preset_effect [of "''Rock''" EqualizerApp_init] r l
  have "snd (apply_preset EqualizerApp_init ''Rock'') = None
        \<and> gains (worker (fst (apply_preset EqualizerApp_init ''Rock''))) = map real_of_int [5, 4, 3, 0, -1, -1, 0, 3, 4, 5]"
    by simp
  with m r show ?thesis by simp
qed

subsection \<open>Filter history\<close>

lemmas echo_eval = echo_worker_def callback_def Let_def scale_def total_gain_def linear_gain_def
      sosfilt_def sos_valid_def along_axis0_def from_columns_def column_def ncols_def
      sosfilt_1d_def zero_delays_def upt2 add_scaled_def replicate10 np_clip_out_def clip_row_def clip1_def
      spectrum_of_Inr

lemma sosfilt_1d_zero:
  "sosfilt_1d sos = (\<lambda>x. fst (sosfilt_zi sos (replicate (length sos) (0, 0)) x))"
  by (intro ext) (simp add: sosfilt_1d_def zero_delays_def)

lemma band_step_zero_spec: "band_step_zero w chunk = band_step_spec w chunk"
  by (intro ext)
    (simp add: band_step_zero_def band_step_spec_def sosfilt_1d_zero
      total_gain_eq_spec linear_gain_def)

lemma band_loop_zero:
  assumes "length (sos_filters w) \<le> length (gains w)"
    and "\<forall>sos \<in> set (sos_filters w). sos_valid sos"
  shows "band_loop w chunk 0 (sos_filters w) acc =
           Inr (foldl (band_step_zero w chunk) acc [0..<length (sos_filters w)])"
proof -
  have "band_loop w chunk 0 (drop 0 (sos_filters w)) acc =
        Inr (foldl (band_step_spec w chunk) acc [0..<length (sos_filters w)])"
    using assms by (intro band_loop_spec [where n = "length (sos_filters w) - 0"]) simp_all
  then show ?thesis by (simp add: band_step_zero_spec)
qed

lemma band_step_zero_frame:
  "band_step_zero (w\<lparr>current_frame := c\<rparr>) chunk = band_step_zero w chunk"
  by (intro ext) (simp add: band_step_zero_def total_gain_def Let_def)

lemma callback_worker_cases:
  "cb_worker (callback w outdata frames) = w
   \<or> cb_worker (callback w outdata frames) = w\<lparr>is_playing := False\<rparr>
   \<or> cb_worker (callback w outdata frames) = w\<lparr>current_frame := current_frame w + frames\<rparr>"
  by (simp add: callback_def Let_def split: sum.splits)

lemma callback_out_zero:
  assumes "is_playing w" and "data w = Some d" and "current_frame w + frames \<le> length d"
    and "length (sos_filters w) \<le> length (gains w)"
    and "\<forall>sos \<in> set (sos_filters w). sos_valid sos"
  shows "cb_outdata (callback w outdata frames) =
           (case np_clip_out
                   (scale (foldl (band_step_zero w (scale (take frames (drop (current_frame w) d)) (preamp w)))
                             (scale (take frames (drop (current_frame w) d)) (preamp w))
                             [0..<length (sos_filters w)])
                      (master_vol w))
                   outdata of
              Inl e \<Rightarrow> outdata
            | Inr clipped \<Rightarrow> clipped)"
  using assms(1-3) band_loop_zero [OF assms(4,5)]
  by (simp add: callback_def Let_def del: upt_Suc split: sum.splits)

lemma emitted_advances:
  assumes "cb_emitted (callback w outdata frames) \<noteq> None"
  shows "cb_worker (callback w outdata frames) = w\<lparr>current_frame := current_frame w + frames\<rparr>"
  using assms by (auto simp: callback_def Let_def split: sum.splits if_splits)

lemma set_gain_sos: "sos_filters (worker (fst (set_gain a i v))) = sos_filters (worker a)"
  by (simp add: set_gain_def)

lemma slider_setValue_sos: "sos_filters (worker (fst (slider_setValue a i v))) = sos_filters (worker a)"
  by (simp add: slider_setValue_def update_band_def set_gain_def Let_def)

lemma preset_loop_sos: "sos_filters (worker (fst (preset_loop a i p))) = sos_filters (worker a)"
proof (induction p arbitrary: a i)
  case Nil
  show ?case by simp
next
  case (Cons gain rest)
  obtain a1 e1 where s1: "slider_setValue a i gain = (a1, e1)" by (cases "slider_setValue a i gain")
  obtain a2 e2 where s2: "set_gain a1 i gain = (a2, e2)" by (cases "set_gain a1 i gain")
  have f1: "sos_filters (worker a1) = sos_filters (worker a)"
    using slider_setValue_sos [of a i gain] s1 by simp
  have f2: "sos_filters (worker a2) = sos_filters (worker a1)"
    using set_gain_sos [of a1 i gain] s2 by simp
  show ?case
    using s1 s2 f1 f2 Cons.IH [of a2 "Suc i"]
    by (cases e1; cases e2) simp_all
qed

lemma callback_sos: "sos_filters (cb_worker (callback w outdata frames)) = sos_filters w"
  by (simp add: callback_def Let_def split: sum.splits)

lemma perform_keeps_bank:
  "(\<forall>decoded. act \<noteq> LoadAudio (Some decoded)) \<Longrightarrow>
   sos_filters (worker (perform design a act)) = sos_filters (worker a)"
proof (cases act)
  case (LoadAudio chosen)
  assume "\<forall>decoded. act \<noteq> LoadAudio (Some decoded)"
  with LoadAudio have "chosen = None" by (cases chosen) auto
  with LoadAudio show ?thesis by (simp add: load_audio_def)
qed (simp_all add: callback_sos toggle_play_def apply_preset_def preset_loop_sos
      toggle_bass_booster_def update_preamp_def update_master_def update_band_def set_gain_sos
      set_bass_boost_def set_treble_boost_def closeEvent_def split: option.splits)

lemma perform_load_bank:
  "sos_filters (worker (perform design a (LoadAudio (Some (d, rate))))) =
     map (band_sos design rate) (takeWhile (band_ok rate) BANDS)"
  by (simp add: load_audio_def load_file_def Let_def update_filters_eq)

text \<open>
  C5 (amended). The band filters keep no history between blocks. Every call filters each
  band of non-zero gain from zero delay values: what it writes is the clipped,
  master-volume-scaled fold of the band steps that start \<open>sosfilt\<close> at zeros on the
  frames of this block. That holds for the block after a processed block as well: its
  output is the same formula on its own frames, with nothing of the earlier block in it.
  A call leaves the worker as it was but for \<open>is_playing\<close> or \<open>current_frame\<close>, so the
  delay values a filter ends with are kept nowhere. The bank of coefficients is what lasts:
  \<open>callback\<close> and every action of the control surface other than loading a file leave it
  unchanged, and loading a file replaces it by the filters designed for the new rate.
\<close>

theorem filter_history_not_carried:
  assumes "is_playing w" and "data w = Some d" and "current_frame w + frames \<le> length d"
    and "length (sos_filters w) \<le> length (gains w)"
    and "\<forall>sos \<in> set (sos_filters w). sos_valid sos"
    and "chunk = scale (take frames (drop (current_frame w) d)) (preamp w)"
    and "next_chunk = scale (take frames (drop (current_frame w + frames) d)) (preamp w)"
  shows "cb_outdata (callback w outdata frames) =
           (case np_clip_out
                   (scale (foldl (band_step_zero w chunk) chunk [0..<length (sos_filters w)]) (master_vol w))
                   outdata of
              Inl e \<Rightarrow> outdata
            | Inr clipped \<Rightarrow> clipped)
       \<and> (cb_emitted (callback w outdata frames) \<noteq> None
            \<and> current_frame w + frames + frames \<le> length d \<longrightarrow>
          cb_outdata (callback (cb_worker (callback w outdata frames)) outdata' frames) =
           (case np_clip_out
                   (scale (foldl (band_step_zero w next_chunk) next_chunk [0..<length (sos_filters w)])
                      (master_vol w))
                   outdata' of
              Inl e \<Rightarrow> outdata'
            | Inr clipped \<Rightarrow> clipped))
       \<and> (cb_worker (callback w outdata frames) = w
          \<or> cb_worker (callback w outdata frames) = w\<lparr>is_playing := False\<rparr>
          \<or> cb_worker (callback w outdata frames) = w\<lparr>current_frame := current_frame w + frames\<rparr>)
       \<and> ((\<forall>decoded. act \<noteq> LoadAudio (Some decoded)) \<longrightarrow>
            sos_filters (worker (perform design a act)) = sos_filters (worker a))
       \<and> sos_filters (worker (perform design a (LoadAudio (Some (d0, rate))))) =
            map (band_sos design rate) (takeWhile (band_ok rate) BANDS)"
proof -
  have first: "cb_outdata (callback w outdata frames) =
           (case np_clip_out
                   (scale (foldl (band_step_zero w chunk) chunk [0..<length (sos_filters w)]) (master_vol w))
                   outdata of
              Inl e \<Rightarrow> outdata
            | Inr clipped \<Rightarrow> clipped)"
    unfolding assms(6) using assms(1-5) by (rule callback_out_zero)
  have second: "cb_outdata (callback (cb_worker (callback w outdata frames)) outdata' frames) =
           (case np_clip_out
                   (scale (foldl (band_step_zero w next_chunk) next_chunk [0..<length (sos_filters w)])
                      (master_vol w))
                   outdata' of
              Inl e \<Rightarrow> outdata'
            | Inr clipped \<Rightarrow> clipped)"
    if "cb_emitted (callback w outdata frames) \<noteq> None \<and> current_frame w + frames + frames \<le> length d"
  proof -
    let ?w1 = "w\<lparr>current_frame := current_frame w + frames\<rparr>"
    from that have w1: "cb_worker (callback w outdata frames) = ?w1"
      by (intro emitted_advances) simp
    have "cb_outdata (callback ?w1 outdata' frames) =
           (case np_clip_out
                   (scale (foldl (band_step_zero ?w1 (scale (take frames (drop (current_frame ?w1) d)) (preamp ?w1)))
                             (scale (take frames (drop (current_frame ?w1) d)) (preamp ?w1))
                             [0..<length (sos_filters ?w1)])
                      (master_vol ?w1))
                   outdata' of
              Inl e \<Rightarrow> outdata'
            | Inr clipped \<Rightarrow> clipped)"
      using assms(1,2,4,5) that by (intro callback_out_zero) simp_all
    then show ?thesis
      unfolding w1 assms(7) by (simp add: band_step_zero_frame del: upt_Suc)
  qed
  have keep: "(\<forall>decoded. act \<noteq> LoadAudio (Some decoded)) \<longrightarrow>
            sos_filters (worker (perform design a act)) = sos_filters (worker a)"
    using perform_keeps_bank [of act design a] by blast
  from first second callback_worker_cases [of w outdata frames] keep
    perform_load_bank [of design a d0 rate]
  show ?thesis by blast
qed

theorem filter_history_not_carried_witness:
  "cb_emitted (callback echo_worker [[0, 0]] 1) \<noteq> None
   \<and> cb_outdata (callback echo_worker [[0, 0]] 1) = [[1/2, 1/2]]
   \<and> cb_outdata (callback (cb_worker (callback echo_worker [[0, 0]] 1)) [[1/2, 1/2]] 1) = [[0, 0]]
   \<and> sos_filters (worker (perform sample_design (EqualizerApp_init\<lparr>worker := echo_worker\<rparr>)
         (Callback [[0, 0]] 1))) = sos_filters echo_worker"
proof -
  have e: "cb_emitted (callback echo_worker [[0, 0]] 1) \<noteq> None"
    by (simp add: echo_eval split: sum.splits)
  note r = filter_history_not_carried [of echo_worker "[[1/10, 1/10], [0, 0]]" 1
      "[[1/10, 1/10]]" "[[0, 0]]" "[[0, 0]]" "[[1/2, 1/2]]" "Callback [[0, 0]] 1"
      sample_design "EqualizerApp_init\<lparr>worker := echo_worker\<rparr>" "[]" 44100]
  have hyps: "is_playing echo_worker" "data echo_worker = Some [[1/10, 1/10], [0, 0]]"
    "current_frame echo_worker + 1 \<le> length [[1/10, 1/10], [0::real, 0]]"
    "length (sos_filters echo_worker) \<le> length (gains echo_worker)"
    "\<forall>sos \<in> set (sos_filters echo_worker). sos_valid sos"
    "[[1/10, 1/10]] = scale (take 1 (drop (current_frame echo_worker) [[1/10, 1/10], [0, 0]])) (preamp echo_worker)"
    "[[0, 0]] = scale (take 1 (drop (current_frame echo_worker + 1) [[1/10, 1/10], [0, 0]])) (preamp echo_worker)"
    by (simp_all add: echo_worker_def sos_valid_def scale_def)
  note r' = r [OF hyps]
  have ev: "scale (foldl (band_step_zero echo_worker c) c [0..<length (sos_filters echo_worker)]) (master_vol echo_worker)
      = scale (add_scaled c (along_axis0 (\<lambda>x. fst (sosfilt_zi [(1, 1, 0, 1, 0, 0)] [(0, 0)] x)) c) 9) (1/2)" for c
    by (simp add: echo_worker_def upt10 replicate10 band_step_zero_def total_gain_def linear_gain_def)
  have cf: "current_frame echo_worker + 1 + 1 \<le> length [[1/10, 1/10], [0::real, 0]]"
    by (simp add: echo_worker_def)
  have o1: "cb_outdata (callback echo_worker [[0, 0]] 1) = [[1/2, 1/2]]"
    unfolding conjunct1 [OF r'] ev
    by (simp add: along_axis0_def from_columns_def column_def ncols_def upt2 add_scaled_def scale_def
        np_clip_out_def clip_row_def clip1_def)
  have "cb_outdata (callback (cb_worker (callback echo_worker [[0, 0]] 1)) [[1/2, 1/2]] 1) =
           (case np_clip_out
                   (scale (foldl (band_step_zero echo_worker [[0, 0]]) [[0, 0]]
                             [0..<length (sos_filters echo_worker)])
                      (master_vol echo_worker))
                   [[1/2, 1/2]] of
              Inl e \<Rightarrow> [[1/2, 1/2]]
            | Inr clipped \<Rightarrow> clipped)"
    using conjunct1 [OF conjunct2 [OF r']] e cf by blast
  then have o2: "cb_outdata (callback (cb_worker (callback echo_worker [[0, 0]] 1)) [[1/2, 1/2]] 1) = [[0, 0]]"
    unfolding ev
    by (simp add: along_axis0_def from_columns_def column_def ncols_def upt2 add_scaled_def scale_def
        np_clip_out_def clip_row_def clip1_def)
  have k: "sos_filters (worker (perform sample_design (EqualizerApp_init\<lparr>worker := echo_worker\<rparr>)
         (Callback [[0, 0]] 1))) = sos_filters echo_worker"
    using r' by simp
  from e o1 o2 k show ?thesis by simp
qed

text \<open>
  A band with the filter \<open>y[n] = x[n] + x[n-1]\<close> at +20 dB, blocks of one frame. The first
  block, of samples 1/10, leaves the delay values (1/10, 0) in each channel's filter; the
  second block, of zeros, is filtered from (0, 0) again and comes out as zeros, where the
  history of the first block would have given the filtered sample 1/10.
\<close>

theorem filter_history_counterexample:
  "cb_outdata (callback echo_worker [[0, 0]] 1) = [[1/2, 1/2]]
   \<and> cb_worker (callback echo_worker [[0, 0]] 1) = echo_worker\<lparr>current_frame := 1\<rparr>
   \<and> snd (sosfilt_zi [(1, 1, 0, 1, 0, 0)] (zero_delays [(1, 1, 0, 1, 0, 0)]) [1/10]) = [(1/10, 0)]
   \<and> zero_delays [(1, 1, 0, 1, 0, 0)] = [(0, 0)]
   \<and> cb_outdata (callback (echo_worker\<lparr>current_frame := 1\<rparr>) [[1/2, 1/2]] 1) = [[0, 0]]
   \<and> fst (sosfilt_zi [(1, 1, 0, 1, 0, 0)] [(1/10, 0)] [0]) = [1/10]"
  by (simp add: echo_eval split: sum.splits)

subsection \<open>The spectrum feed\<close>



















end
